theory Spec2Isabelle
  imports Main
begin

section \<open>JavaScript values\<close>

text \<open>
  The module passes selectors, documents, pipelines and optional arguments around as
  plain JavaScript values. Numbers are abstracted to the integers together with \<open>NaN\<close>,
  the one value of a number the module tests for. Objects are property lists in insertion
  order.
\<close>

datatype jsnum = Finite int | NaN

datatype jsval =
    JUndefined
  | JNull
  | JBool bool
  | JNum jsnum
  | JStr string
  | JArr "jsval list"
  | JObj "(string \<times> jsval) list"

text \<open>A thrown or rejected JavaScript error: \<open>new Error(message)\<close> or a \<open>TypeError\<close>.\<close>

datatype error = Error string | TypeError string

text \<open>
  How a call of one of the module's functions ends: it throws before returning a promise,
  or it returns a promise that is rejected, or one that is resolved.
\<close>

datatype 'a outcome = Throws error | Rejected error | Resolved 'a

section \<open>The lodash helpers the module calls\<close>

text \<open>The decimal name of an array index, as JavaScript writes the key of an element.\<close>

function index_key :: "nat \<Rightarrow> string" where
  "index_key n =
     (if n < 10 then [''0123456789'' ! n]
      else index_key (n div 10) @ [''0123456789'' ! (n mod 10)])"
  by pat_completeness auto
termination
  by (relation "measure (\<lambda>n. n)") auto

declare index_key.simps [simp del]

text \<open>
  The own enumerable string-keyed properties of a value: the properties of an object, the
  elements of an array under their indices, the characters of a string under theirs, and
  none for \<open>undefined\<close>, \<open>null\<close>, booleans and numbers.
\<close>

fun entries :: "jsval \<Rightarrow> (string \<times> jsval) list" where
  "entries (JObj kvs) = kvs"
| "entries (JArr xs) = zip (map index_key [0..<length xs]) xs"
| "entries (JStr s) = zip (map index_key [0..<length s]) (map (\<lambda>c. JStr [c]) s)"
| "entries _ = []"

definition lodash_keys :: "jsval \<Rightarrow> string list" where
  "lodash_keys v = map fst (entries v)"

definition lodash_size :: "'a list \<Rightarrow> nat" where
  "lodash_size xs = length xs"

definition lodash_isUndefined :: "jsval \<Rightarrow> bool" where
  "lodash_isUndefined v = (v = JUndefined)"

text \<open>\<open>_.isNaN\<close> is true of the number \<open>NaN\<close> only, not of other values that are not numbers.\<close>

fun lodash_isNaN :: "jsval \<Rightarrow> bool" where
  "lodash_isNaN (JNum NaN) = True"
| "lodash_isNaN _ = False"

fun lodash_isObject :: "jsval \<Rightarrow> bool" where
  "lodash_isObject (JObj _) = True"
| "lodash_isObject (JArr _) = True"
| "lodash_isObject _ = False"

definition lodash_startsWith :: "string \<Rightarrow> string \<Rightarrow> bool" where
  "lodash_startsWith s target = (take (length target) s = target)"

text \<open>
  The keys of an object that are array indices: the decimal numerals without leading
  zeros below \<open>2^32 - 1\<close>. JavaScript lists the properties under such keys first, in
  ascending order, and the other properties after them in the order of their creation.
  An object given to the module is taken to list its properties in that order.
\<close>

definition digit_of :: "char \<Rightarrow> nat option" where
  "digit_of c =
     map_of [(CHR ''0'', 0), (CHR ''1'', 1), (CHR ''2'', 2), (CHR ''3'', 3), (CHR ''4'', 4),
             (CHR ''5'', 5), (CHR ''6'', 6), (CHR ''7'', 7), (CHR ''8'', 8), (CHR ''9'', 9)] c"

fun decimal :: "nat \<Rightarrow> string \<Rightarrow> nat option" where
  "decimal acc [] = Some acc"
| "decimal acc (c # cs) =
     (case digit_of c of None \<Rightarrow> None | Some d \<Rightarrow> decimal (10 * acc + d) cs)"

definition array_index :: "string \<Rightarrow> nat option" where
  "array_index k =
     (case k of
        [] \<Rightarrow> None
      | c # cs \<Rightarrow>
          (if c = CHR ''0'' \<and> cs \<noteq> [] then None
           else (case decimal 0 k of
                   None \<Rightarrow> None
                 | Some n \<Rightarrow> (if n < 4294967295 then Some n else None))))"

text \<open>Whether a new property under \<open>k\<close> is listed before the property under \<open>k'\<close>.\<close>

definition goes_before :: "string \<Rightarrow> string \<Rightarrow> bool" where
  "goes_before k k' =
     (case array_index k of
        None \<Rightarrow> False
      | Some n \<Rightarrow> (case array_index k' of None \<Rightarrow> True | Some m \<Rightarrow> n < m))"

fun replace_prop :: "(string \<times> jsval) list \<Rightarrow> string \<Rightarrow> jsval \<Rightarrow> (string \<times> jsval) list" where
  "replace_prop [] k v = []"
| "replace_prop ((k', v') # kvs) k v =
     (if k' = k then (k, v) # kvs else (k', v') # replace_prop kvs k v)"

fun insert_prop :: "(string \<times> jsval) list \<Rightarrow> string \<Rightarrow> jsval \<Rightarrow> (string \<times> jsval) list" where
  "insert_prop [] k v = [(k, v)]"
| "insert_prop ((k', v') # kvs) k v =
     (if goes_before k k' then (k, v) # (k', v') # kvs else (k', v') # insert_prop kvs k v)"

text \<open>
  The assignment \<open>obj[k] = v\<close>: an existing property keeps its place and takes the new
  value; a new property is put where JavaScript lists it.
\<close>

definition assign :: "(string \<times> jsval) list \<Rightarrow> string \<Rightarrow> jsval \<Rightarrow> (string \<times> jsval) list" where
  "assign kvs k v =
     (if k \<in> set (map fst kvs) then replace_prop kvs k v else insert_prop kvs k v)"

text \<open>\<open>_.extend(dst, src)\<close> assigns every property of \<open>src\<close> to \<open>dst\<close>, in order.\<close>

fun extend_props :: "(string \<times> jsval) list \<Rightarrow> (string \<times> jsval) list \<Rightarrow> (string \<times> jsval) list" where
  "extend_props dst [] = dst"
| "extend_props dst ((k, v) # kvs) = extend_props (assign dst k v) kvs"

definition lodash_extend :: "(string \<times> jsval) list \<Rightarrow> jsval \<Rightarrow> (string \<times> jsval) list" where
  "lodash_extend dst src = extend_props dst (entries src)"

section \<open>The database driver and the world the module acts on\<close>

text \<open>
  The requests the module sends through a connection, one per chain of driver calls on
  \<open>db.collection(cName)\<close> (or on \<open>db\<close> itself for \<open>ensureIndex\<close>).
\<close>

datatype request =
    Insert jsval
  | UpdateOne jsval jsval "jsval option"
  | InsertMany jsval
  | Find jsval jsval
  | FindLimited jsval jsval jsval jsval
  | Count jsval
  | Aggregate "jsval list"
  | Remove jsval
  | Update jsval jsval
  | Save jsval
  | EnsureIndex jsval jsval
  | Distinct jsval jsval

text \<open>
  The driver answers a chain of calls in one of three ways: a call of the chain throws
  while the chain is built, the promise the chain returns is rejected, or that promise is
  fulfilled with a value.
\<close>

datatype reply = SyncThrow error | Reject error | Fulfil jsval

text \<open>
  The driver is not part of the module: it is a parameter, a state machine over a state
  type \<open>'s\<close> of its own. \<open>connectAsync\<close> yields an error when no handle is acquired.
\<close>

record 's driver =
  connectAsync :: "'s \<Rightarrow> error option \<times> 's"
  exec :: "string \<Rightarrow> request \<Rightarrow> 's \<Rightarrow> reply \<times> 's"
  close :: "'s \<Rightarrow> 's"

datatype event = ConnectFailed error | Connected | Call string request | Closed

record alarm =
  caller :: string
  what :: error
  info :: jsval

text \<open>
  The world: the driver's state, the connections asked for, the requests sent and the
  connections closed so far, in order, and the records handed to the alarm sink so far.
\<close>

record 's world =
  db :: 's
  trace :: "event list"
  alarms :: "alarm list"

text \<open>
  Modelled from the spec: \<open>alarms.reportAlarm\<close> of \<open>./alarms\<close> is not among the sources.
  The alarm sink receives the record and nothing of its answer is used.
\<close>

definition reportAlarm :: "alarm \<Rightarrow> 's world \<Rightarrow> 's world" where
  "reportAlarm a w = w\<lparr>alarms := alarms w @ [a]\<rparr>"

definition dbConnection :: "'s driver \<Rightarrow> 's world \<Rightarrow> error option \<times> 's world" where
  "dbConnection D w =
     (case connectAsync D (db w) of
        (Some e, s) \<Rightarrow> (Some e, w\<lparr>db := s, trace := trace w @ [ConnectFailed e]\<rparr>)
      | (None, s) \<Rightarrow> (None, w\<lparr>db := s, trace := trace w @ [Connected]\<rparr>))"

text \<open>The disposer registered by \<open>dbConnection\<close>: \<open>db.close()\<close>.\<close>

definition dispose :: "'s driver \<Rightarrow> 's world \<Rightarrow> 's world" where
  "dispose D w = w\<lparr>db := close D (db w), trace := trace w @ [Closed]\<rparr>"

text \<open>
  \<open>Promise.using(dbConnection(), f)\<close>: when the connection fails the promise is rejected
  and \<open>f\<close> does not run; otherwise \<open>f\<close> runs, the disposer runs after it however it ended,
  and the promise takes the result of \<open>f\<close>.
\<close>

definition Promise_using ::
  "'s driver \<Rightarrow> ('s world \<Rightarrow> (error + jsval) \<times> 's world) \<Rightarrow> 's world \<Rightarrow> jsval outcome \<times> 's world" where
  "Promise_using D f w =
     (case dbConnection D w of
        (Some e, w1) \<Rightarrow> (Rejected e, w1)
      | (None, w1) \<Rightarrow>
          (case f w1 of
             (Inl e, w2) \<Rightarrow> (Rejected e, dispose D w2)
           | (Inr v, w2) \<Rightarrow> (Resolved v, dispose D w2)))"

text \<open>
  A chain of driver calls. When the chain is built and its last call returns a promise,
  the request is on its way to the store and is written to the trace; when a call of the
  chain throws, the chain is cut there and no request is sent.
\<close>

fun request_events :: "string \<Rightarrow> request \<Rightarrow> reply \<Rightarrow> event list" where
  "request_events cName r (SyncThrow e) = []"
| "request_events cName r (Reject e) = [Call cName r]"
| "request_events cName r (Fulfil v) = [Call cName r]"

definition driver_call :: "'s driver \<Rightarrow> string \<Rightarrow> request \<Rightarrow> 's world \<Rightarrow> reply \<times> 's world" where
  "driver_call D cName r w =
     (case exec D cName r (db w) of
        (rep, s) \<Rightarrow> (rep, w\<lparr>db := s, trace := trace w @ request_events cName r rep\<rparr>))"

text \<open>A driver call whose promise is returned as it is from the callback of \<open>Promise.using\<close>.\<close>

definition plain_call :: "'s driver \<Rightarrow> string \<Rightarrow> request \<Rightarrow> 's world \<Rightarrow> (error + jsval) \<times> 's world" where
  "plain_call D cName r w =
     (case driver_call D cName r w of
        (SyncThrow e, w') \<Rightarrow> (Inl e, w')
      | (Reject e, w') \<Rightarrow> (Inl e, w')
      | (Fulfil v, w') \<Rightarrow> (Inr v, w'))"

text \<open>
  A driver call followed by \<open>.catch(...)\<close> on its promise, as in \<open>countByDay\<close>,
  \<open>countByObject\<close> and \<open>lookup\<close>: a rejection is reported to the alarm sink and replaced by
  the empty array; a throw while the call is built is not caught there.
\<close>

definition caught_call ::
  "'s driver \<Rightarrow> string \<Rightarrow> request \<Rightarrow> string \<Rightarrow> jsval \<Rightarrow> 's world \<Rightarrow> (error + jsval) \<times> 's world" where
  "caught_call D cName r name ctx w =
     (case driver_call D cName r w of
        (SyncThrow e, w') \<Rightarrow> (Inl e, w')
      | (Reject e, w') \<Rightarrow>
          (Inr (JArr []), reportAlarm \<lparr>caller = name, what = e, info = ctx\<rparr> w')
      | (Fulfil v, w') \<Rightarrow> (Inr v, w'))"

text \<open>\<open>.return(x)\<close> replaces the value of a resolved promise; \<open>.tap\<close> of a debug line changes nothing.\<close>

definition Promise_return :: "jsval \<Rightarrow> jsval outcome \<times> 'w \<Rightarrow> jsval outcome \<times> 'w" where
  "Promise_return x r =
     (case r of (Resolved _, w) \<Rightarrow> (Resolved x, w) | (out, w) \<Rightarrow> (out, w))"

section \<open>The operations of the module\<close>

definition writeOne :: "'s driver \<Rightarrow> string \<Rightarrow> jsval \<Rightarrow> 's world \<Rightarrow> jsval outcome \<times> 's world" where
  "writeOne D cName dataObject w =
     Promise_return dataObject (Promise_using D (plain_call D cName (Insert dataObject)) w)"

definition updateOne ::
  "'s driver \<Rightarrow> string \<Rightarrow> jsval \<Rightarrow> jsval \<Rightarrow> 's world \<Rightarrow> jsval outcome \<times> 's world" where
  "updateOne D cName selector updated w =
     Promise_return updated
       (Promise_using D (plain_call D cName (UpdateOne selector updated None)) w)"

definition upsertOne ::
  "'s driver \<Rightarrow> string \<Rightarrow> jsval \<Rightarrow> jsval \<Rightarrow> 's world \<Rightarrow> jsval outcome \<times> 's world" where
  "upsertOne D cName selector updated w =
     Promise_return updated
       (Promise_using D
          (plain_call D cName
             (UpdateOne selector updated (Some (JObj [(''upsert'', JBool True)])))) w)"

definition writeMany :: "'s driver \<Rightarrow> string \<Rightarrow> jsval \<Rightarrow> 's world \<Rightarrow> jsval outcome \<times> 's world" where
  "writeMany D cName dataObjects w =
     Promise_using D (plain_call D cName (InsertMany dataObjects)) w"

definition read ::
  "'s driver \<Rightarrow> string \<Rightarrow> jsval \<Rightarrow> jsval \<Rightarrow> 's world \<Rightarrow> jsval outcome \<times> 's world" where
  "read D cName selector sorter w =
     (let sorter' = (if lodash_isUndefined sorter then JObj [] else sorter)
      in Promise_using D (plain_call D cName (Find selector sorter')) w)"

definition remove ::
  "'s driver \<Rightarrow> string \<Rightarrow> jsval \<Rightarrow> 's world \<Rightarrow> jsval outcome \<times> 's world" where
  "remove D cName selector w =
     (if lodash_size (lodash_keys selector) = 0
      then (Throws (Error ''Nope, you can't delete {} ''), w)
      else Promise_using D (plain_call D cName (Remove selector)) w)"

text \<open>
  In \<open>readLimit\<close> the \<open>.catch\<close> follows \<open>Promise.using\<close>, so it also catches a failed
  connection and a throw while the cursor is built.
\<close>

definition readLimit ::
  "'s driver \<Rightarrow> string \<Rightarrow> jsval \<Rightarrow> jsval \<Rightarrow> jsval \<Rightarrow> jsval \<Rightarrow> 's world \<Rightarrow> jsval outcome \<times> 's world" where
  "readLimit D cName selector sorter limitN past w =
     (let past' = (if lodash_isNaN past then JNum (Finite 0) else past)
      in case Promise_using D (plain_call D cName (FindLimited selector sorter past' limitN)) w of
           (Rejected errstr, w') \<Rightarrow>
             (Resolved (JArr []),
              reportAlarm
                \<lparr>caller = ''readLimit'', what = errstr,
                 info = JObj [(''selector'', selector), (''limit'', limitN), (''sorter'', sorter)]\<rparr>
                w')
         | (out, w') \<Rightarrow> (out, w'))"

definition countByMatch ::
  "'s driver \<Rightarrow> string \<Rightarrow> jsval \<Rightarrow> 's world \<Rightarrow> jsval outcome \<times> 's world" where
  "countByMatch D cName selector w =
     Promise_using D (plain_call D cName (Count selector)) w"

definition aggregate ::
  "'s driver \<Rightarrow> string \<Rightarrow> jsval \<Rightarrow> jsval \<Rightarrow> 's world \<Rightarrow> jsval outcome \<times> 's world" where
  "aggregate D cName match grp w =
     Promise_using D
       (plain_call D cName
          (Aggregate [JObj [(''$match'', match)], JObj [(''$group'', grp)]])) w"

definition queryId :: "string \<Rightarrow> (string \<times> jsval) list" where
  "queryId timeVarName =
     [(''year'', JObj [(''$year'', JStr timeVarName)]),
      (''month'', JObj [(''$month'', JStr timeVarName)]),
      (''day'', JObj [(''$dayOfMonth'', JStr timeVarName)])]"

text \<open>The pipeline \<open>totalQ\<close> that \<open>countByDay\<close> builds.\<close>

definition totalQ :: "string \<Rightarrow> jsval \<Rightarrow> jsval \<Rightarrow> jsval list" where
  "totalQ timeVarName filt aggext =
     (let q = (if lodash_isObject aggext \<and> lodash_size (lodash_keys aggext) > 0
               then lodash_extend (queryId timeVarName) aggext
               else queryId timeVarName)
      in [JObj [(''$match'', filt)],
          JObj [(''$group'',
                 JObj [(''_id'', JObj q),
                       (''count'', JObj [(''$sum'', JNum (Finite 1))])])]])"

definition countByDay ::
  "'s driver \<Rightarrow> string \<Rightarrow> string \<Rightarrow> jsval \<Rightarrow> jsval \<Rightarrow> 's world \<Rightarrow> jsval outcome \<times> 's world" where
  "countByDay D cName timeVarName filt aggext w =
     (if \<not> lodash_startsWith timeVarName ''$''
      then (Throws (Error (''developer please: mongoVar wants '$'' @ [CHR 0x27])), w)
      else Promise_using D
             (caught_call D cName (Aggregate (totalQ timeVarName filt aggext)) ''countByDay''
                (JObj [(''cName'', JStr cName), (''timeVarName'', JStr timeVarName),
                       (''filter'', filt), (''aggext'', aggext)])) w)"

text \<open>The pipeline of \<open>countByObject\<close>, for the grouping object after defaulting.\<close>

definition groupSortQ :: "jsval \<Rightarrow> jsval list" where
  "groupSortQ idobj =
     [JObj [(''$group'',
             JObj [(''_id'', idobj), (''count'', JObj [(''$sum'', JNum (Finite 1))])])],
      JObj [(''$sort'', JObj [(''count'', JNum (Finite (- 1)))])]]"

definition countByObject ::
  "'s driver \<Rightarrow> string \<Rightarrow> jsval \<Rightarrow> 's world \<Rightarrow> jsval outcome \<times> 's world" where
  "countByObject D cName idobj w =
     (let idobj' = (if lodash_isUndefined idobj then JObj [] else idobj)
      in Promise_using D
           (caught_call D cName (Aggregate (groupSortQ idobj')) ''countByObject''
              (JObj [(''cName'', JStr cName), (''idobj'', idobj')])) w)"

text \<open>
  The property read \<open>e['id']\<close> (and \<open>e.id\<close>): a \<open>TypeError\<close> on \<open>undefined\<close> and \<open>null\<close>,
  the property of an object, and \<open>undefined\<close> where there is no such property.
\<close>

fun get_id :: "jsval \<Rightarrow> error + jsval" where
  "get_id JUndefined = Inl (TypeError ''Cannot read property 'id' of undefined'')"
| "get_id JNull = Inl (TypeError ''Cannot read property 'id' of null'')"
| "get_id (JObj kvs) = Inr (case map_of kvs ''id'' of None \<Rightarrow> JUndefined | Some v \<Rightarrow> v)"
| "get_id _ = Inr JUndefined"

text \<open>The \<open>_.each\<close> loop of \<open>updateMany\<close>: the first element without an \<open>id\<close> throws.\<close>

fun check_ids :: "jsval list \<Rightarrow> error option" where
  "check_ids [] = None"
| "check_ids (e # es) =
     (case get_id e of
        Inl err \<Rightarrow> Some err
      | Inr v \<Rightarrow>
          (if lodash_isUndefined v then Some (Error ''we need id in every element'')
           else check_ids es))"

text \<open>
  \<open>Promise.each(xs, f)\<close>: \<open>f\<close> runs on the elements one after the other, each call
  starting when the promise of the one before is resolved; the first failure ends the
  loop.
\<close>

fun Promise_each ::
  "('a \<Rightarrow> 'w \<Rightarrow> jsval outcome \<times> 'w) \<Rightarrow> 'a list \<Rightarrow> 'w \<Rightarrow> error option \<times> 'w" where
  "Promise_each f [] w = (None, w)"
| "Promise_each f (e # es) w =
     (case f e w of
        (Resolved _, w') \<Rightarrow> Promise_each f es w'
      | (Rejected err, w') \<Rightarrow> (Some err, w')
      | (Throws err, w') \<Rightarrow> (Some err, w'))"

text \<open>The callback of \<open>Promise.each\<close> in \<open>updateMany\<close>: one connection scope for one element.\<close>

definition update_element :: "'s driver \<Rightarrow> string \<Rightarrow> jsval \<Rightarrow> 's world \<Rightarrow> jsval outcome \<times> 's world" where
  "update_element D cName e w =
     Promise_using D
       (\<lambda>w1. case get_id e of
                Inl err \<Rightarrow> (Inl err, w1)
              | Inr i \<Rightarrow> plain_call D cName (Update (JObj [(''id'', i)]) e) w1) w"

definition updateMany ::
  "'s driver \<Rightarrow> string \<Rightarrow> jsval list \<Rightarrow> 's world \<Rightarrow> jsval outcome \<times> 's world" where
  "updateMany D cName elist w =
     (case check_ids elist of
        Some err \<Rightarrow> (Throws err, w)
      | None \<Rightarrow>
          (case Promise_each (update_element D cName) elist w of
             (Some err, w') \<Rightarrow> (Rejected err, w')
           | (None, w') \<Rightarrow> (Resolved (JArr elist), w')))"

definition lookup ::
  "'s driver \<Rightarrow> string \<Rightarrow> jsval \<Rightarrow> jsval \<Rightarrow> 's world \<Rightarrow> jsval outcome \<times> 's world" where
  "lookup D cName query sequence w =
     Promise_using D
       (caught_call D cName (Aggregate [query, sequence]) ''lookup''
          (JObj [(''cName'', JStr cName), (''query'', query), (''sequence'', sequence)])) w"

definition save :: "'s driver \<Rightarrow> string \<Rightarrow> jsval \<Rightarrow> 's world \<Rightarrow> jsval outcome \<times> 's world" where
  "save D cName doc w = Promise_using D (plain_call D cName (Save doc)) w"

definition createIndex ::
  "'s driver \<Rightarrow> string \<Rightarrow> jsval \<Rightarrow> jsval \<Rightarrow> 's world \<Rightarrow> jsval outcome \<times> 's world" where
  "createIndex D cName index opt w =
     Promise_using D (plain_call D cName (EnsureIndex index opt)) w"

definition distinct_values ::
  "'s driver \<Rightarrow> string \<Rightarrow> jsval \<Rightarrow> jsval \<Rightarrow> 's world \<Rightarrow> jsval outcome \<times> 's world" where
  "distinct_values D cName field query w =
     Promise_using D (plain_call D cName (Distinct field query)) w"

text \<open>A call of one of the sixteen exported functions, with its arguments.\<close>

datatype op =
    Op_updateOne string jsval jsval
  | Op_upsertOne string jsval jsval
  | Op_writeOne string jsval
  | Op_writeMany string jsval
  | Op_readLimit string jsval jsval jsval jsval
  | Op_countByDay string string jsval jsval
  | Op_countByMatch string jsval
  | Op_countByObject string jsval
  | Op_read string jsval jsval
  | Op_remove string jsval
  | Op_aggregate string jsval jsval
  | Op_updateMany string "jsval list"
  | Op_lookup string jsval jsval
  | Op_save string jsval
  | Op_createIndex string jsval jsval
  | Op_distinct string jsval jsval

fun invoke :: "'s driver \<Rightarrow> op \<Rightarrow> 's world \<Rightarrow> jsval outcome \<times> 's world" where
  "invoke D (Op_updateOne c sel upd) w = updateOne D c sel upd w"
| "invoke D (Op_upsertOne c sel upd) w = upsertOne D c sel upd w"
| "invoke D (Op_writeOne c d) w = writeOne D c d w"
| "invoke D (Op_writeMany c ds) w = writeMany D c ds w"
| "invoke D (Op_readLimit c sel so lim past) w = readLimit D c sel so lim past w"
| "invoke D (Op_countByDay c tv f a) w = countByDay D c tv f a w"
| "invoke D (Op_countByMatch c sel) w = countByMatch D c sel w"
| "invoke D (Op_countByObject c i) w = countByObject D c i w"
| "invoke D (Op_read c sel so) w = read D c sel so w"
| "invoke D (Op_remove c sel) w = remove D c sel w"
| "invoke D (Op_aggregate c m g) w = aggregate D c m g w"
| "invoke D (Op_updateMany c es) w = updateMany D c es w"
| "invoke D (Op_lookup c q s) w = lookup D c q s w"
| "invoke D (Op_save c d) w = save D c d w"
| "invoke D (Op_createIndex c i opt) w = createIndex D c i opt w"
| "invoke D (Op_distinct c f q) w = distinct_values D c f q w"

text \<open>Any mix of calls, one after the other; the outcomes are dropped, the world kept.\<close>

fun invoke_all :: "'s driver \<Rightarrow> op list \<Rightarrow> 's world \<Rightarrow> 's world" where
  "invoke_all D [] w = w"
| "invoke_all D (c # cs) w = invoke_all D cs (snd (invoke D c w))"

section \<open>Reading the trace\<close>

definition acquisitions :: "event list \<Rightarrow> nat" where
  "acquisitions es = length (filter (\<lambda>e. e = Connected) es)"

definition releases :: "event list \<Rightarrow> nat" where
  "releases es = length (filter (\<lambda>e. e = Closed) es)"

text \<open>
  A trace in which every handle acquired is released once, after at most one request and
  before the next connection is asked for.
\<close>

fun released_once :: "event list \<Rightarrow> bool" where
  "released_once [] = True"
| "released_once (ConnectFailed e # es) = released_once es"
| "released_once (Connected # Closed # es) = released_once es"
| "released_once (Connected # Call c r # Closed # es) = released_once es"
| "released_once _ = False"

text \<open>
  An element of a batch carries an identifier when reading its \<open>id\<close> neither throws nor
  yields \<open>undefined\<close>; \<open>id_of\<close> is that identifier.
\<close>

definition has_id :: "jsval \<Rightarrow> bool" where
  "has_id e = (case get_id e of Inl _ \<Rightarrow> False | Inr v \<Rightarrow> v \<noteq> JUndefined)"

definition id_of :: "jsval \<Rightarrow> jsval" where
  "id_of e = (case get_id e of Inl _ \<Rightarrow> JUndefined | Inr v \<Rightarrow> v)"

text \<open>The events of one completed update of a batch element.\<close>

definition update_scope :: "string \<Rightarrow> jsval \<Rightarrow> event list" where
  "update_scope cName e =
     [Connected, Call cName (Update (JObj [(''id'', id_of e)]) e), Closed]"

section \<open>A driver with counters\<close>

text \<open>
  Any driver, instrumented at the connection source: one counter goes up with every
  handle \<open>connectAsync\<close> gives out, the other with every \<open>close\<close>. The driver under the
  counters runs as before.
\<close>

record 's metered =
  inner :: 's
  acquired :: nat
  released :: nat

definition metered :: "'s driver \<Rightarrow> 's metered driver" where
  "metered D =
     \<lparr>connectAsync =
        (\<lambda>m. case connectAsync D (inner m) of
                (None, s) \<Rightarrow> (None, m\<lparr>inner := s, acquired := Suc (acquired m)\<rparr>)
              | (Some e, s) \<Rightarrow> (Some e, m\<lparr>inner := s\<rparr>)),
      exec = (\<lambda>cName r m. case exec D cName r (inner m) of (rep, s) \<Rightarrow> (rep, m\<lparr>inner := s\<rparr>)),
      close = (\<lambda>m. m\<lparr>inner := close D (inner m), released := Suc (released m)\<rparr>)\<rparr>"

text \<open>
  What a run from \<open>w\<close> to \<open>w'\<close> on a driver with counters did with its handles: the
  events it added are connection scopes, each closed once, and the driver's counters grew
  by the acquisitions and the releases among those events.
\<close>

definition settled :: "'s metered world \<Rightarrow> 's metered world \<Rightarrow> bool" where
  "settled w w' =
     (\<exists>es. trace w' = trace w @ es \<and> released_once es \<and>
           acquired (db w') = acquired (db w) + acquisitions es \<and>
           released (db w') = released (db w) + releases es)"

section \<open>Overlapping calls\<close>

text \<open>
  \<open>Promise.using(dbConnection(), f)\<close> does not run in one piece: it waits for the
  connection, then runs \<open>f\<close> on the handle, then, when the promise of \<open>f\<close> has settled, runs
  the disposer. Between these steps other calls take theirs. The callbacks the module
  passes are of three forms: a driver call returned as it is, a driver call followed by
  \<open>.catch\<close>, and the update of one element of a batch.
\<close>

datatype job =
    Plain string request
  | Caught string request string jsval
  | Element string jsval

fun callback :: "'s driver \<Rightarrow> job \<Rightarrow> 's world \<Rightarrow> (error + jsval) \<times> 's world" where
  "callback D (Plain cName r) w = plain_call D cName r w"
| "callback D (Caught cName r name ctx) w = caught_call D cName r name ctx w"
| "callback D (Element cName e) w =
     (case get_id e of
        Inl err \<Rightarrow> (Inl err, w)
      | Inr i \<Rightarrow> plain_call D cName (Update (JObj [(''id'', i)]) e) w)"

text \<open>
  How far a scope has come: waiting for its connection, holding the handle, holding it
  with the promise of the callback settled, and finished with the disposer run (or with
  no handle, when the connection failed).
\<close>

datatype phase = Waiting | Holding | Settling "error + jsval" | Finished "jsval outcome"

text \<open>
  One step of a scope. The request and its reply stay one step, as \<open>exec\<close> is.
\<close>

fun scope_step :: "'s driver \<Rightarrow> job \<Rightarrow> phase \<Rightarrow> 's world \<Rightarrow> phase \<times> 's world" where
  "scope_step D j Waiting w =
     (case dbConnection D w of
        (Some e, w1) \<Rightarrow> (Finished (Rejected e), w1)
      | (None, w1) \<Rightarrow> (Holding, w1))"
| "scope_step D j Holding w = (case callback D j w of (r, w1) \<Rightarrow> (Settling r, w1))"
| "scope_step D j (Settling (Inl e)) w = (Finished (Rejected e), dispose D w)"
| "scope_step D j (Settling (Inr v)) w = (Finished (Resolved v), dispose D w)"
| "scope_step D j (Finished out) w = (Finished out, w)"

text \<open>
  Calls in progress at once: at each moment a new scope is started or one of the scopes
  in progress takes its next step.
\<close>

datatype action = Start job | Step nat

fun perform :: "'s driver \<Rightarrow> action \<Rightarrow> (job \<times> phase) list \<times> 's world \<Rightarrow> (job \<times> phase) list \<times> 's world" where
  "perform D (Start j) (pool, w) = (pool @ [(j, Waiting)], w)"
| "perform D (Step i) (pool, w) =
     (if i < length pool
      then (case scope_step D (fst (pool ! i)) (snd (pool ! i)) w of
              (p, w') \<Rightarrow> (pool[i := (fst (pool ! i), p)], w'))
      else (pool, w))"

fun run_actions :: "'s driver \<Rightarrow> action list \<Rightarrow> (job \<times> phase) list \<times> 's world \<Rightarrow> (job \<times> phase) list \<times> 's world" where
  "run_actions D [] st = st"
| "run_actions D (a # as) st = run_actions D as (perform D a st)"

text \<open>The number of handles the scopes in progress hold.\<close>

fun holds :: "phase \<Rightarrow> nat" where
  "holds Holding = 1"
| "holds (Settling r) = 1"
| "holds p = 0"

definition held :: "(job \<times> phase) list \<Rightarrow> nat" where
  "held pool = sum_list (map (\<lambda>jp. holds (snd jp)) pool)"

text \<open>A scope that has run to its end.\<close>

fun finished :: "phase \<Rightarrow> bool" where
  "finished (Finished out) = True"
| "finished p = False"

section \<open>A simulated store\<close>

text \<open>
  A store to run the operations on. It connects when \<open>online\<close>. As the driver does, it
  throws while the chain is built on an empty collection name, on a \<open>skip\<close> that is not of
  type number and on a \<open>limit\<close> that is not of type number. Otherwise it answers the next
  \<open>healthy_for\<close> requests and rejects the ones after (never, when that is \<open>None\<close>). It
  holds one list of documents, which stands for the documents a \<open>find\<close> matches, in the
  order of the sort; a \<open>skip\<close> or \<open>limit\<close> of \<open>NaN\<close> is rejected.
\<close>

record sim =
  online :: bool
  healthy_for :: "nat option"
  docs :: "jsval list"

fun is_number :: "jsval \<Rightarrow> bool" where
  "is_number (JNum _) = True"
| "is_number _ = False"

fun sim_build :: "string \<Rightarrow> request \<Rightarrow> error option" where
  "sim_build cName (FindLimited sel sorter past lim) =
     (if cName = [] then Some (Error ''collection names cannot be empty'')
      else if \<not> is_number past then Some (Error ''skip requires an integer'')
      else if \<not> is_number lim then Some (Error ''limit requires an integer'')
      else None)"
| "sim_build cName r =
     (if cName = [] then Some (Error ''collection names cannot be empty'') else None)"

fun sim_limit :: "int \<Rightarrow> jsval list \<Rightarrow> jsval list" where
  "sim_limit m xs = (if m = 0 then xs else take (nat \<bar>m\<bar>) xs)"

fun sim_answer :: "request \<Rightarrow> sim \<Rightarrow> reply" where
  "sim_answer (FindLimited sel sorter (JNum (Finite n)) (JNum (Finite m))) s =
     Fulfil (JArr (sim_limit m (drop (nat n) (docs s))))"
| "sim_answer (FindLimited sel sorter past lim) s = Reject (Error ''bad skip or limit value'')"
| "sim_answer r s = Fulfil (JArr (docs s))"

definition sim_exec :: "string \<Rightarrow> request \<Rightarrow> sim \<Rightarrow> reply \<times> sim" where
  "sim_exec cName r s =
     (case sim_build cName r of
        Some e \<Rightarrow> (SyncThrow e, s)
      | None \<Rightarrow>
          (case healthy_for s of
             None \<Rightarrow> (sim_answer r s, s)
           | Some 0 \<Rightarrow> (Reject (Error ''simulated failure''), s)
           | Some (Suc n) \<Rightarrow> (sim_answer r s, s\<lparr>healthy_for := Some n\<rparr>)))"

definition sim_store :: "sim driver" where
  "sim_store =
     \<lparr>connectAsync =
        (\<lambda>s. (if online s then None else Some (Error ''connect ECONNREFUSED''), s)),
      exec = sim_exec,
      close = (\<lambda>s. s)\<rparr>"

text \<open>
  A world in which nothing has happened yet, and the stores used below: one whose every
  request is rejected, one that answers \<open>n\<close> requests before it rejects, one that cannot be
  connected to, and one that answers every request over the documents \<open>ds\<close>; \<open>elem i\<close> is
  a batch element with the identifier \<open>i\<close>.
\<close>

definition fresh :: "'s \<Rightarrow> 's world" where
  "fresh s = \<lparr>db = s, trace = [], alarms = []\<rparr>"

definition sim_failing :: sim where
  "sim_failing = \<lparr>online = True, healthy_for = Some 0, docs = []\<rparr>"

definition sim_fuse :: "nat \<Rightarrow> sim" where
  "sim_fuse n = \<lparr>online = True, healthy_for = Some n, docs = []\<rparr>"

definition elem :: "int \<Rightarrow> jsval" where
  "elem i = JObj [(''id'', JNum (Finite i)), (''seen'', JBool True)]"

definition sim_offline :: sim where
  "sim_offline = \<lparr>online = False, healthy_for = None, docs = []\<rparr>"

definition sim_healthy :: "jsval list \<Rightarrow> sim" where
  "sim_healthy ds = \<lparr>online = True, healthy_for = None, docs = ds\<rparr>"

section \<open>Connection scopes\<close>

lemma using_connected:
  "connectAsync D (db w) = (None, s1) \<Longrightarrow>
   Promise_using D f w =
     (case f (w\<lparr>db := s1, trace := trace w @ [Connected]\<rparr>) of
        (Inl e, w2) \<Rightarrow> (Rejected e, dispose D w2)
      | (Inr v, w2) \<Rightarrow> (Resolved v, dispose D w2))"
  by (simp add: Promise_using_def dbConnection_def)

lemma using_refused:
  "connectAsync D (db w) = (Some e, s1) \<Longrightarrow>
   Promise_using D f w = (Rejected e, w\<lparr>db := s1, trace := trace w @ [ConnectFailed e]\<rparr>)"
  by (simp add: Promise_using_def dbConnection_def)

lemma using_never_throws: "fst (Promise_using D f w) \<noteq> Throws e"
  by (simp add: Promise_using_def split: prod.splits option.splits sum.splits)

lemma using_plain_fulfilled:
  assumes "connectAsync D (db w) = (None, s1)" and "exec D cName r s1 = (Fulfil v, s2)"
  shows "Promise_using D (plain_call D cName r) w =
     (Resolved v, w\<lparr>db := close D s2, trace := trace w @ [Connected, Call cName r, Closed]\<rparr>)"
  using assms by (simp add: using_connected plain_call_def driver_call_def dispose_def)

lemma using_plain_rejected:
  assumes "connectAsync D (db w) = (None, s1)" and "exec D cName r s1 = (Reject e, s2)"
  shows "Promise_using D (plain_call D cName r) w =
     (Rejected e, w\<lparr>db := close D s2, trace := trace w @ [Connected, Call cName r, Closed]\<rparr>)"
  using assms by (simp add: using_connected plain_call_def driver_call_def dispose_def)

lemma using_plain_thrown:
  assumes "connectAsync D (db w) = (None, s1)" and "exec D cName r s1 = (SyncThrow e, s2)"
  shows "Promise_using D (plain_call D cName r) w =
     (Rejected e, w\<lparr>db := close D s2, trace := trace w @ [Connected, Closed]\<rparr>)"
  using assms by (simp add: using_connected plain_call_def driver_call_def dispose_def)

lemma using_caught_fulfilled:
  assumes "connectAsync D (db w) = (None, s1)" and "exec D cName r s1 = (Fulfil v, s2)"
  shows "Promise_using D (caught_call D cName r name ctx) w =
     (Resolved v, w\<lparr>db := close D s2, trace := trace w @ [Connected, Call cName r, Closed]\<rparr>)"
  using assms by (simp add: using_connected caught_call_def driver_call_def dispose_def)

lemma using_caught_rejected:
  assumes "connectAsync D (db w) = (None, s1)" and "exec D cName r s1 = (Reject e, s2)"
  shows "Promise_using D (caught_call D cName r name ctx) w =
     (Resolved (JArr []),
      w\<lparr>db := close D s2, trace := trace w @ [Connected, Call cName r, Closed],
        alarms := alarms w @ [\<lparr>caller = name, what = e, info = ctx\<rparr>]\<rparr>)"
  using assms
  by (simp add: using_connected caught_call_def driver_call_def dispose_def reportAlarm_def)

lemma using_caught_thrown:
  assumes "connectAsync D (db w) = (None, s1)" and "exec D cName r s1 = (SyncThrow e, s2)"
  shows "Promise_using D (caught_call D cName r name ctx) w =
     (Rejected e, w\<lparr>db := close D s2, trace := trace w @ [Connected, Closed]\<rparr>)"
  using assms by (simp add: using_connected caught_call_def driver_call_def dispose_def)

lemma sim_connects:
  "online s \<Longrightarrow> connectAsync sim_store (db (fresh s)) = (None, s)"
  by (simp add: sim_store_def fresh_def)

lemma sim_refuses:
  "\<not> online s \<Longrightarrow>
   connectAsync sim_store (db (fresh s)) = (Some (Error ''connect ECONNREFUSED''), s)"
  by (simp add: sim_store_def fresh_def)

lemma sim_close: "close sim_store s = s"
  by (simp add: sim_store_def)

lemma sim_failing_exec:
  "c \<noteq> [] \<Longrightarrow> sim_build c r = None \<Longrightarrow>
   exec sim_store c r sim_failing = (Reject (Error ''simulated failure''), sim_failing)"
  by (simp add: sim_store_def sim_exec_def sim_failing_def)

lemma sim_unnamed_exec:
  "exec sim_store [] r s = (SyncThrow (Error ''collection names cannot be empty''), s)"
  by (cases r) (simp_all add: sim_store_def sim_exec_def)

section \<open>Operations that propagate\<close>

lemma plain_call_alarms: "alarms (snd (plain_call D c r w)) = alarms w"
  by (simp add: plain_call_def driver_call_def split: prod.splits reply.splits)

lemma using_plain_alarms: "alarms (snd (Promise_using D (plain_call D c r) w)) = alarms w"
proof (cases "connectAsync D (db w)")
  case (Pair x s)
  show ?thesis
  proof (cases x)
    case None
    with Pair plain_call_alarms[of D c r "w\<lparr>db := s, trace := trace w @ [Connected]\<rparr>"]
    show ?thesis
      by (auto simp: using_connected dispose_def split: prod.splits sum.splits)
  next
    case (Some e)
    with Pair show ?thesis by (simp add: using_refused)
  qed
qed

text \<open>
  Claim C9. \<open>countByMatch\<close> and \<open>aggregate\<close> never add a record to the alarm sink, and a
  failure of the store reaches the caller as it is: when the request is rejected with \<open>e\<close>,
  when a call of the chain throws \<open>e\<close>, and when the connection fails with \<open>e\<close>, the
  promise is rejected with \<open>e\<close>; a connection that was acquired is closed.
\<close>

theorem countByMatch_aggregate_propagate:
  "alarms (snd (countByMatch D cName selector w)) = alarms w \<and>
   alarms (snd (aggregate D cName match grp w)) = alarms w \<and>
   (connectAsync D (db w) = (None, s1) \<and>
    exec D cName (Count selector) s1 = (Reject e, s2) \<longrightarrow>
      countByMatch D cName selector w =
        (Rejected e,
         w\<lparr>db := close D s2,
           trace := trace w @ [Connected, Call cName (Count selector), Closed]\<rparr>)) \<and>
   (connectAsync D (db w) = (None, s1) \<and>
    exec D cName (Count selector) s1 = (SyncThrow e, s2) \<longrightarrow>
      countByMatch D cName selector w =
        (Rejected e, w\<lparr>db := close D s2, trace := trace w @ [Connected, Closed]\<rparr>)) \<and>
   (connectAsync D (db w) = (None, s1) \<and>
    exec D cName (Aggregate [JObj [(''$match'', match)], JObj [(''$group'', grp)]]) s1
      = (Reject e, s2) \<longrightarrow>
      aggregate D cName match grp w =
        (Rejected e,
         w\<lparr>db := close D s2,
           trace := trace w @
             [Connected,
              Call cName (Aggregate [JObj [(''$match'', match)], JObj [(''$group'', grp)]]),
              Closed]\<rparr>)) \<and>
   (connectAsync D (db w) = (None, s1) \<and>
    exec D cName (Aggregate [JObj [(''$match'', match)], JObj [(''$group'', grp)]]) s1
      = (SyncThrow e, s2) \<longrightarrow>
      aggregate D cName match grp w =
        (Rejected e, w\<lparr>db := close D s2, trace := trace w @ [Connected, Closed]\<rparr>)) \<and>
   (connectAsync D (db w) = (Some e, s1) \<longrightarrow>
      fst (countByMatch D cName selector w) = Rejected e \<and>
      fst (aggregate D cName match grp w) = Rejected e)"
  by (simp add: countByMatch_def aggregate_def using_plain_alarms using_refused
        using_plain_rejected using_plain_thrown)

theorem countByMatch_aggregate_propagate_witness:
  "connectAsync sim_store (db (fresh sim_failing)) = (None, sim_failing) \<and>
   exec sim_store ''videos'' (Count (JObj [])) sim_failing
     = (Reject (Error ''simulated failure''), sim_failing) \<and>
   exec sim_store ''videos''
       (Aggregate [JObj [(''$match'', JObj [])], JObj [(''$group'', JObj [])]]) sim_failing
     = (Reject (Error ''simulated failure''), sim_failing) \<and>
   countByMatch sim_store ''videos'' (JObj []) (fresh sim_failing) =
     (Rejected (Error ''simulated failure''),
      \<lparr>db = sim_failing,
        trace = [Connected, Call ''videos'' (Count (JObj [])), Closed], alarms = []\<rparr>) \<and>
   aggregate sim_store ''videos'' (JObj []) (JObj []) (fresh sim_failing) =
     (Rejected (Error ''simulated failure''),
      \<lparr>db = sim_failing,
        trace = [Connected,
                 Call ''videos''
                   (Aggregate [JObj [(''$match'', JObj [])], JObj [(''$group'', JObj [])]]),
                 Closed],
        alarms = []\<rparr>) \<and>
   exec sim_store [] (Count (JObj [])) sim_failing
     = (SyncThrow (Error ''collection names cannot be empty''), sim_failing) \<and>
   exec sim_store [] (Aggregate [JObj [(''$match'', JObj [])], JObj [(''$group'', JObj [])]])
       sim_failing
     = (SyncThrow (Error ''collection names cannot be empty''), sim_failing) \<and>
   countByMatch sim_store [] (JObj []) (fresh sim_failing) =
     (Rejected (Error ''collection names cannot be empty''),
      \<lparr>db = sim_failing, trace = [Connected, Closed], alarms = []\<rparr>) \<and>
   aggregate sim_store [] (JObj []) (JObj []) (fresh sim_failing) =
     (Rejected (Error ''collection names cannot be empty''),
      \<lparr>db = sim_failing, trace = [Connected, Closed], alarms = []\<rparr>) \<and>
   connectAsync sim_store (db (fresh sim_offline))
     = (Some (Error ''connect ECONNREFUSED''), sim_offline) \<and>
   fst (countByMatch sim_store ''videos'' (JObj []) (fresh sim_offline))
     = Rejected (Error ''connect ECONNREFUSED'') \<and>
   fst (aggregate sim_store ''videos'' (JObj []) (JObj []) (fresh sim_offline))
     = Rejected (Error ''connect ECONNREFUSED'')"
proof -
  have c: "connectAsync sim_store (db (fresh sim_failing)) = (None, sim_failing)"
    by (simp add: sim_connects sim_failing_def)
  have r: "connectAsync sim_store (db (fresh sim_offline))
     = (Some (Error ''connect ECONNREFUSED''), sim_offline)"
    by (simp add: sim_refuses sim_offline_def)
  show ?thesis
    using countByMatch_aggregate_propagate
      [where D = sim_store and w = "fresh sim_failing" and ?s1.0 = sim_failing
         and ?s2.0 = sim_failing and e = "Error ''simulated failure''"
         and cName = "''videos''" and selector = "JObj []" and match = "JObj []"
         and grp = "JObj []"]
      countByMatch_aggregate_propagate
      [where D = sim_store and w = "fresh sim_failing" and ?s1.0 = sim_failing
         and ?s2.0 = sim_failing and e = "Error ''collection names cannot be empty''"
         and cName = "[]" and selector = "JObj []" and match = "JObj []"
         and grp = "JObj []"]
      countByMatch_aggregate_propagate
      [where D = sim_store and w = "fresh sim_offline" and ?s1.0 = sim_offline
         and e = "Error ''connect ECONNREFUSED''"
         and cName = "''videos''" and selector = "JObj []" and match = "JObj []"
         and grp = "JObj []"]
      c r
    by (simp add: fresh_def sim_failing_exec sim_unnamed_exec sim_close)
qed

section \<open>Preconditions\<close>

text \<open>
  Claim C10. \<open>remove\<close> throws its precondition error, leaving the world as it was, for
  every selector without enumerable keys; \<open>{}\<close>, \<open>undefined\<close> (also an argument left out)
  and \<open>null\<close> are such selectors.
\<close>

theorem remove_refuses_keyless_selectors:
  "(lodash_keys selector = [] \<longrightarrow>
      remove D cName selector w = (Throws (Error ''Nope, you can't delete {} ''), w)) \<and>
   lodash_keys (JObj []) = [] \<and> lodash_keys JUndefined = [] \<and> lodash_keys JNull = []"
  by (simp add: remove_def lodash_size_def lodash_keys_def)

theorem remove_refuses_keyless_selectors_witness:
  "lodash_keys JNull = [] \<and>
   remove sim_store ''videos'' JNull (fresh (sim_healthy []))
     = (Throws (Error ''Nope, you can't delete {} ''), fresh (sim_healthy [])) \<and>
   lodash_keys JUndefined = [] \<and>
   remove sim_store ''videos'' JUndefined (fresh (sim_healthy []))
     = (Throws (Error ''Nope, you can't delete {} ''), fresh (sim_healthy []))"
  using remove_refuses_keyless_selectors
      [where D = sim_store and w = "fresh (sim_healthy [])" and cName = "''videos''"
         and selector = JNull]
    remove_refuses_keyless_selectors
      [where D = sim_store and w = "fresh (sim_healthy [])" and cName = "''videos''"
         and selector = JUndefined]
  by simp

lemma startsWith_dollar:
  "lodash_startsWith s ''$'' \<longleftrightarrow> (\<exists>rest. s = CHR ''$'' # rest)"
  by (cases s) (auto simp: lodash_startsWith_def)

text \<open>
  Claim C4. \<open>countByDay\<close> with a \<open>timeVarName\<close> that does not start with \<open>$\<close> throws its
  precondition error and leaves the world as it was, so the store is not contacted. With a
  \<open>timeVarName\<close> that starts with \<open>$\<close> the call never throws.
\<close>

theorem countByDay_time_field_precondition:
  "(\<not> lodash_startsWith timeVarName ''$'' \<longrightarrow>
      countByDay D cName timeVarName filt aggext w =
        (Throws (Error (''developer please: mongoVar wants '$'' @ [CHR 0x27])), w)) \<and>
   (lodash_startsWith timeVarName ''$'' \<longrightarrow>
      fst (countByDay D cName timeVarName filt aggext w) \<noteq> Throws err)"
  by (simp add: countByDay_def using_never_throws)

theorem countByDay_time_field_precondition_witness:
  "\<not> lodash_startsWith ''savingTime'' ''$'' \<and>
   countByDay sim_store ''videos'' ''savingTime'' (JObj []) JUndefined (fresh (sim_healthy []))
     = (Throws (Error (''developer please: mongoVar wants '$'' @ [CHR 0x27])),
        fresh (sim_healthy [])) \<and>
   lodash_startsWith ''$savingTime'' ''$'' \<and>
   fst (countByDay sim_store ''videos'' ''$savingTime'' (JObj []) JUndefined
          (fresh (sim_healthy [])))
     \<noteq> Throws (Error (''developer please: mongoVar wants '$'' @ [CHR 0x27]))"
proof -
  have n: "\<not> lodash_startsWith ''savingTime'' ''$''"
    by (simp add: lodash_startsWith_def)
  have y: "lodash_startsWith ''$savingTime'' ''$''"
    by (simp add: lodash_startsWith_def)
  show ?thesis
    using countByDay_time_field_precondition
      [where D = sim_store and w = "fresh (sim_healthy [])" and cName = "''videos''"
         and timeVarName = "''savingTime''" and filt = "JObj []" and aggext = JUndefined]
      countByDay_time_field_precondition
      [where D = sim_store and w = "fresh (sim_healthy [])" and cName = "''videos''"
         and timeVarName = "''$savingTime''" and filt = "JObj []" and aggext = JUndefined
         and err = "Error (''developer please: mongoVar wants '$'' @ [CHR 0x27])"]
      n y
    by simp
qed

text \<open>
  Claim C3. \<open>remove\<close> with the selector \<open>{}\<close> throws its precondition error and leaves the
  world as it was: no connection is asked for and the store is not touched. With a
  selector that has a property it does not throw and goes to the store. It asks for a
  connection; when that fails, the promise is rejected with the failure. When the
  connection is acquired it hands the delete with that selector to the driver, ends as
  the driver answers (resolved with the acknowledgement, or rejected with the error of a
  rejected or a thrown delete), and closes the connection on the state the delete left.
\<close>

theorem remove_empty_selector_refused:
  "remove D cName (JObj []) w = (Throws (Error ''Nope, you can't delete {} ''), w) \<and>
   (kvs \<noteq> [] \<longrightarrow> fst (remove D cName (JObj kvs) w) \<noteq> Throws err) \<and>
   (kvs \<noteq> [] \<and> connectAsync D (db w) = (None, s1) \<and>
    exec D cName (Remove (JObj kvs)) s1 = (Fulfil v, s2) \<longrightarrow>
      remove D cName (JObj kvs) w =
        (Resolved v,
         w\<lparr>db := close D s2,
           trace := trace w @ [Connected, Call cName (Remove (JObj kvs)), Closed]\<rparr>)) \<and>
   (kvs \<noteq> [] \<and> connectAsync D (db w) = (None, s1) \<and>
    exec D cName (Remove (JObj kvs)) s1 = (Reject e, s2) \<longrightarrow>
      remove D cName (JObj kvs) w =
        (Rejected e,
         w\<lparr>db := close D s2,
           trace := trace w @ [Connected, Call cName (Remove (JObj kvs)), Closed]\<rparr>)) \<and>
   (kvs \<noteq> [] \<and> connectAsync D (db w) = (None, s1) \<and>
    exec D cName (Remove (JObj kvs)) s1 = (SyncThrow e, s2) \<longrightarrow>
      remove D cName (JObj kvs) w =
        (Rejected e, w\<lparr>db := close D s2, trace := trace w @ [Connected, Closed]\<rparr>)) \<and>
   (kvs \<noteq> [] \<and> connectAsync D (db w) = (Some e, s1) \<longrightarrow>
      remove D cName (JObj kvs) w =
        (Rejected e, w\<lparr>db := s1, trace := trace w @ [ConnectFailed e]\<rparr>))"
  by (simp add: remove_def lodash_size_def lodash_keys_def using_refused using_never_throws
        using_plain_fulfilled using_plain_rejected using_plain_thrown)

theorem remove_empty_selector_refused_witness:
  "remove sim_store ''videos'' (JObj []) (fresh (sim_healthy [JStr ''a'']))
     = (Throws (Error ''Nope, you can't delete {} ''), fresh (sim_healthy [JStr ''a''])) \<and>
   [(''videoId'', JStr ''abc'')] \<noteq> [] \<and>
   fst (remove sim_store ''videos'' (JObj [(''videoId'', JStr ''abc'')])
          (fresh (sim_healthy [JStr ''a''])))
     \<noteq> Throws (Error ''Nope, you can't delete {} '') \<and>
   connectAsync sim_store (db (fresh (sim_healthy [JStr ''a''])))
     = (None, sim_healthy [JStr ''a'']) \<and>
   exec sim_store ''videos'' (Remove (JObj [(''videoId'', JStr ''abc'')]))
       (sim_healthy [JStr ''a''])
     = (Fulfil (JArr [JStr ''a'']), sim_healthy [JStr ''a'']) \<and>
   remove sim_store ''videos'' (JObj [(''videoId'', JStr ''abc'')])
       (fresh (sim_healthy [JStr ''a''])) =
     (Resolved (JArr [JStr ''a'']),
      \<lparr>db = sim_healthy [JStr ''a''],
        trace = [Connected, Call ''videos'' (Remove (JObj [(''videoId'', JStr ''abc'')])),
                 Closed],
        alarms = []\<rparr>) \<and>
   connectAsync sim_store (db (fresh sim_failing)) = (None, sim_failing) \<and>
   exec sim_store ''videos'' (Remove (JObj [(''videoId'', JStr ''abc'')])) sim_failing
     = (Reject (Error ''simulated failure''), sim_failing) \<and>
   remove sim_store ''videos'' (JObj [(''videoId'', JStr ''abc'')]) (fresh sim_failing) =
     (Rejected (Error ''simulated failure''),
      \<lparr>db = sim_failing,
        trace = [Connected, Call ''videos'' (Remove (JObj [(''videoId'', JStr ''abc'')])),
                 Closed],
        alarms = []\<rparr>) \<and>
   exec sim_store [] (Remove (JObj [(''videoId'', JStr ''abc'')])) sim_failing
     = (SyncThrow (Error ''collection names cannot be empty''), sim_failing) \<and>
   remove sim_store [] (JObj [(''videoId'', JStr ''abc'')]) (fresh sim_failing) =
     (Rejected (Error ''collection names cannot be empty''),
      \<lparr>db = sim_failing, trace = [Connected, Closed], alarms = []\<rparr>) \<and>
   connectAsync sim_store (db (fresh sim_offline))
     = (Some (Error ''connect ECONNREFUSED''), sim_offline) \<and>
   remove sim_store ''videos'' (JObj [(''videoId'', JStr ''abc'')]) (fresh sim_offline) =
     (Rejected (Error ''connect ECONNREFUSED''),
      \<lparr>db = sim_offline,
        trace = [ConnectFailed (Error ''connect ECONNREFUSED'')], alarms = []\<rparr>)"
proof -
  have c1: "connectAsync sim_store (db (fresh (sim_healthy [JStr ''a''])))
     = (None, sim_healthy [JStr ''a''])"
    by (simp add: sim_connects sim_healthy_def)
  have x1: "exec sim_store ''videos'' (Remove (JObj [(''videoId'', JStr ''abc'')]))
       (sim_healthy [JStr ''a''])
     = (Fulfil (JArr [JStr ''a'']), sim_healthy [JStr ''a''])"
    by (simp add: sim_store_def sim_exec_def sim_healthy_def)
  have c2: "connectAsync sim_store (db (fresh sim_failing)) = (None, sim_failing)"
    by (simp add: sim_connects sim_failing_def)
  have c3: "connectAsync sim_store (db (fresh sim_offline))
     = (Some (Error ''connect ECONNREFUSED''), sim_offline)"
    by (simp add: sim_refuses sim_offline_def)
  show ?thesis
    using remove_empty_selector_refused
      [where D = sim_store and w = "fresh (sim_healthy [JStr ''a''])"
         and ?s1.0 = "sim_healthy [JStr ''a'']" and ?s2.0 = "sim_healthy [JStr ''a'']"
         and v = "JArr [JStr ''a'']"
         and cName = "''videos''" and kvs = "[(''videoId'', JStr ''abc'')]"
         and err = "Error ''Nope, you can't delete {} ''"]
      remove_empty_selector_refused
      [where D = sim_store and w = "fresh sim_failing" and ?s1.0 = sim_failing
         and ?s2.0 = sim_failing and e = "Error ''simulated failure''"
         and cName = "''videos''" and kvs = "[(''videoId'', JStr ''abc'')]"]
      remove_empty_selector_refused
      [where D = sim_store and w = "fresh sim_failing" and ?s1.0 = sim_failing
         and ?s2.0 = sim_failing and e = "Error ''collection names cannot be empty''"
         and cName = "[]" and kvs = "[(''videoId'', JStr ''abc'')]"]
      remove_empty_selector_refused
      [where D = sim_store and w = "fresh sim_offline" and ?s1.0 = sim_offline
         and e = "Error ''connect ECONNREFUSED''"
         and cName = "''videos''" and kvs = "[(''videoId'', JStr ''abc'')]"]
      c1 x1 c2 c3
    by (simp add: fresh_def sim_failing_exec sim_unnamed_exec sim_close)
qed

section \<open>Failure containment\<close>

lemma countByDay_contained:
  assumes "lodash_startsWith timeVarName ''$''"
    and "connectAsync D (db w) = (None, s1)"
    and "exec D cName (Aggregate (totalQ timeVarName filt aggext)) s1 = (Reject e, s2)"
  shows "countByDay D cName timeVarName filt aggext w =
      (Resolved (JArr []),
       w\<lparr>db := close D s2,
         trace := trace w @
           [Connected, Call cName (Aggregate (totalQ timeVarName filt aggext)), Closed],
         alarms := alarms w @
           [\<lparr>caller = ''countByDay'', what = e,
             info = JObj [(''cName'', JStr cName), (''timeVarName'', JStr timeVarName),
                          (''filter'', filt), (''aggext'', aggext)]\<rparr>]\<rparr>)"
  using assms by (simp add: countByDay_def using_caught_rejected)

lemma countByObject_contained:
  assumes "connectAsync D (db w) = (None, s1)"
    and "exec D cName (Aggregate (groupSortQ (if idobj = JUndefined then JObj [] else idobj))) s1
           = (Reject e, s2)"
  shows "countByObject D cName idobj w =
      (Resolved (JArr []),
       w\<lparr>db := close D s2,
         trace := trace w @
           [Connected,
            Call cName (Aggregate (groupSortQ (if idobj = JUndefined then JObj [] else idobj))),
            Closed],
         alarms := alarms w @
           [\<lparr>caller = ''countByObject'', what = e,
             info = JObj [(''cName'', JStr cName),
                          (''idobj'', if idobj = JUndefined then JObj [] else idobj)]\<rparr>]\<rparr>)"
  using assms by (simp add: countByObject_def lodash_isUndefined_def using_caught_rejected Let_def)

lemma lookup_contained:
  assumes "connectAsync D (db w) = (None, s1)"
    and "exec D cName (Aggregate [query, sequence]) s1 = (Reject e, s2)"
  shows "lookup D cName query sequence w =
      (Resolved (JArr []),
       w\<lparr>db := close D s2,
         trace := trace w @ [Connected, Call cName (Aggregate [query, sequence]), Closed],
         alarms := alarms w @
           [\<lparr>caller = ''lookup'', what = e,
             info = JObj [(''cName'', JStr cName), (''query'', query),
                          (''sequence'', sequence)]\<rparr>]\<rparr>)"
  using assms by (simp add: lookup_def using_caught_rejected)

text \<open>
  Claim C1, as amended. When the connection is acquired and the store rejects the
  execution of the pipeline with an error \<open>e\<close> (the promise of \<open>toArray()\<close> is rejected),
  each of \<open>countByDay\<close>, \<open>countByObject\<close> and \<open>lookup\<close> resolves with the empty array, closes
  the connection, and adds exactly one record to the alarm sink: its \<open>caller\<close> is the name
  of the operation, its \<open>what\<close> is \<open>e\<close>, and its \<open>info\<close> holds the arguments of the call,
  where for \<open>countByObject\<close> the grouping object is the one after defaulting, \<open>{}\<close> when
  the argument was left out. The rejection does not reach the caller.
\<close>

theorem pipeline_failure_contained:
  "(lodash_startsWith timeVarName ''$'' \<and> connectAsync D (db w) = (None, s1) \<and>
    exec D cName (Aggregate (totalQ timeVarName filt aggext)) s1 = (Reject e, s2) \<longrightarrow>
    countByDay D cName timeVarName filt aggext w =
      (Resolved (JArr []),
       w\<lparr>db := close D s2,
         trace := trace w @
           [Connected, Call cName (Aggregate (totalQ timeVarName filt aggext)), Closed],
         alarms := alarms w @
           [\<lparr>caller = ''countByDay'', what = e,
             info = JObj [(''cName'', JStr cName), (''timeVarName'', JStr timeVarName),
                          (''filter'', filt), (''aggext'', aggext)]\<rparr>]\<rparr>)) \<and>
   (connectAsync D (db w) = (None, s1) \<and>
    exec D cName (Aggregate (groupSortQ (if idobj = JUndefined then JObj [] else idobj))) s1
      = (Reject e, s2) \<longrightarrow>
    countByObject D cName idobj w =
      (Resolved (JArr []),
       w\<lparr>db := close D s2,
         trace := trace w @
           [Connected,
            Call cName (Aggregate (groupSortQ (if idobj = JUndefined then JObj [] else idobj))),
            Closed],
         alarms := alarms w @
           [\<lparr>caller = ''countByObject'', what = e,
             info = JObj [(''cName'', JStr cName),
                          (''idobj'', if idobj = JUndefined then JObj [] else idobj)]\<rparr>]\<rparr>)) \<and>
   (connectAsync D (db w) = (None, s1) \<and>
    exec D cName (Aggregate [query, sequence]) s1 = (Reject e, s2) \<longrightarrow>
    lookup D cName query sequence w =
      (Resolved (JArr []),
       w\<lparr>db := close D s2,
         trace := trace w @ [Connected, Call cName (Aggregate [query, sequence]), Closed],
         alarms := alarms w @
           [\<lparr>caller = ''lookup'', what = e,
             info = JObj [(''cName'', JStr cName), (''query'', query),
                          (''sequence'', sequence)]\<rparr>]\<rparr>))"
  using countByDay_contained [of timeVarName D w s1 cName filt aggext e s2]
    countByObject_contained [of D w s1 cName idobj e s2]
    lookup_contained [of D w s1 cName query sequence e s2]
  by blast

theorem pipeline_failure_contained_witness:
  "lodash_startsWith ''$savingTime'' ''$'' \<and>
   connectAsync sim_store (db (fresh sim_failing)) = (None, sim_failing) \<and>
   exec sim_store ''videos'' (Aggregate (totalQ ''$savingTime'' (JObj []) JUndefined)) sim_failing
     = (Reject (Error ''simulated failure''), sim_failing) \<and>
   exec sim_store ''videos'' (Aggregate (groupSortQ (JObj []))) sim_failing
     = (Reject (Error ''simulated failure''), sim_failing) \<and>
   exec sim_store ''videos'' (Aggregate [JObj [], JObj []]) sim_failing
     = (Reject (Error ''simulated failure''), sim_failing) \<and>
   countByDay sim_store ''videos'' ''$savingTime'' (JObj []) JUndefined (fresh sim_failing) =
     (Resolved (JArr []),
      \<lparr>db = sim_failing,
        trace = [Connected,
                 Call ''videos'' (Aggregate (totalQ ''$savingTime'' (JObj []) JUndefined)),
                 Closed],
        alarms = [\<lparr>caller = ''countByDay'', what = Error ''simulated failure'',
                   info = JObj [(''cName'', JStr ''videos''),
                                (''timeVarName'', JStr ''$savingTime''),
                                (''filter'', JObj []), (''aggext'', JUndefined)]\<rparr>]\<rparr>) \<and>
   countByObject sim_store ''videos'' JUndefined (fresh sim_failing) =
     (Resolved (JArr []),
      \<lparr>db = sim_failing,
        trace = [Connected, Call ''videos'' (Aggregate (groupSortQ (JObj []))), Closed],
        alarms = [\<lparr>caller = ''countByObject'', what = Error ''simulated failure'',
                   info = JObj [(''cName'', JStr ''videos''), (''idobj'', JObj [])]\<rparr>]\<rparr>) \<and>
   lookup sim_store ''videos'' (JObj []) (JObj []) (fresh sim_failing) =
     (Resolved (JArr []),
      \<lparr>db = sim_failing,
        trace = [Connected, Call ''videos'' (Aggregate [JObj [], JObj []]), Closed],
        alarms = [\<lparr>caller = ''lookup'', what = Error ''simulated failure'',
                   info = JObj [(''cName'', JStr ''videos''), (''query'', JObj []),
                                (''sequence'', JObj [])]\<rparr>]\<rparr>)"
proof -
  have c: "connectAsync sim_store (db (fresh sim_failing)) = (None, sim_failing)"
    by (simp add: sim_connects sim_failing_def)
  have s: "lodash_startsWith ''$savingTime'' ''$''"
    by (simp add: lodash_startsWith_def)
  show ?thesis
    using pipeline_failure_contained
      [where D = sim_store and w = "fresh sim_failing" and ?s1.0 = sim_failing
         and ?s2.0 = sim_failing and e = "Error ''simulated failure''"
         and cName = "''videos''" and timeVarName = "''$savingTime''" and filt = "JObj []"
         and aggext = JUndefined and idobj = JUndefined and query = "JObj []"
         and sequence = "JObj []"]
      c s
    by (simp add: fresh_def sim_failing_exec sim_close)
qed

text \<open>
  The claim as it was stated fails in two places. A failure that a call of the chain
  throws, as the driver does for an empty collection name, is not caught: the promise is
  rejected with it and no alarm is reported. And with the grouping object left out, the
  alarm of \<open>countByObject\<close> holds \<open>{}\<close> for it, not the \<open>undefined\<close> that was passed.
\<close>

theorem pipeline_failure_not_contained_counterexample:
  "countByDay sim_store [] ''$savingTime'' (JObj []) JUndefined (fresh (sim_healthy [])) =
     (Rejected (Error ''collection names cannot be empty''),
      \<lparr>db = sim_healthy [], trace = [Connected, Closed], alarms = []\<rparr>) \<and>
   countByObject sim_store [] (JObj []) (fresh (sim_healthy [])) =
     (Rejected (Error ''collection names cannot be empty''),
      \<lparr>db = sim_healthy [], trace = [Connected, Closed], alarms = []\<rparr>) \<and>
   lookup sim_store [] (JObj []) (JObj []) (fresh (sim_healthy [])) =
     (Rejected (Error ''collection names cannot be empty''),
      \<lparr>db = sim_healthy [], trace = [Connected, Closed], alarms = []\<rparr>) \<and>
   map info (alarms (snd (countByObject sim_store ''videos'' JUndefined (fresh sim_failing)))) =
     [JObj [(''cName'', JStr ''videos''), (''idobj'', JObj [])]] \<and>
   JObj [(''cName'', JStr ''videos''), (''idobj'', JObj [])]
     \<noteq> JObj [(''cName'', JStr ''videos''), (''idobj'', JUndefined)]"
  by (simp add: countByDay_def countByObject_def lookup_def lodash_startsWith_def
        lodash_isUndefined_def Promise_using_def dbConnection_def caught_call_def
        driver_call_def dispose_def reportAlarm_def sim_store_def sim_exec_def
        sim_healthy_def sim_failing_def fresh_def groupSortQ_def Let_def)

section \<open>The pipelines sent\<close>

lemma map_of_replace_prop:
  "k \<in> set (map fst kvs) \<Longrightarrow> map_of (replace_prop kvs k v) = (map_of kvs)(k \<mapsto> v)"
proof (induction kvs k v rule: replace_prop.induct)
  case (1 k v)
  then show ?case by simp
next
  case (2 k' v' kvs k v)
  show ?case
  proof (cases "k' = k")
    case True
    then show ?thesis by (auto simp: fun_eq_iff)
  next
    case False
    with 2 have "map_of (replace_prop kvs k v) = (map_of kvs)(k \<mapsto> v)" by auto
    with False show ?thesis by (auto simp: fun_eq_iff)
  qed
qed

lemma map_of_insert_prop:
  "k \<notin> set (map fst kvs) \<Longrightarrow> map_of (insert_prop kvs k v) = (map_of kvs)(k \<mapsto> v)"
  by (induction kvs k v rule: insert_prop.induct) (auto simp: fun_upd_twist)

lemma map_of_assign: "map_of (assign kvs k v) = (map_of kvs)(k \<mapsto> v)"
  by (simp add: assign_def map_of_replace_prop map_of_insert_prop)

lemma keys_replace_prop: "map fst (replace_prop kvs k v) = map fst kvs"
  by (induction kvs k v rule: replace_prop.induct) auto

lemma keys_insert_prop: "set (map fst (insert_prop kvs k v)) = insert k (set (map fst kvs))"
  by (induction kvs k v rule: insert_prop.induct) auto

lemma distinct_insert_prop:
  "k \<notin> set (map fst kvs) \<Longrightarrow> distinct (map fst kvs) \<Longrightarrow>
   distinct (map fst (insert_prop kvs k v))"
proof (induction kvs k v rule: insert_prop.induct)
  case (1 k v)
  show ?case by simp
next
  case (2 k' v' kvs k v)
  then show ?case using keys_insert_prop[of kvs k v] by (auto simp del: set_map)
qed

lemma distinct_assign: "distinct (map fst kvs) \<Longrightarrow> distinct (map fst (assign kvs k v))"
  by (simp add: assign_def keys_replace_prop distinct_insert_prop)

lemma map_of_extend_props: "map_of (extend_props dst es) = map_of dst ++ map_of (rev es)"
proof (induction dst es rule: extend_props.induct)
  case (1 dst)
  show ?case by simp
next
  case (2 dst k v kvs)
  have "map_of (extend_props (assign dst k v) kvs) x =
        ((map_of dst)(k \<mapsto> v) ++ map_of (rev kvs)) x" for x
    using 2 by (simp only: map_of_assign)
  then show ?case
    by (auto simp: fun_eq_iff map_add_def split: option.splits)
qed

lemma distinct_extend_props:
  "distinct (map fst dst) \<Longrightarrow> distinct (map fst (extend_props dst es))"
  by (induction dst es rule: extend_props.induct) (simp_all add: distinct_assign)

lemma totalQ_plain:
  "(case aggext of JObj kvs \<Rightarrow> kvs = [] | JArr xs \<Rightarrow> xs = [] | _ \<Rightarrow> True) \<Longrightarrow>
   totalQ timeVarName filt aggext =
     [JObj [(''$match'', filt)],
      JObj [(''$group'',
             JObj [(''_id'', JObj (queryId timeVarName)),
                   (''count'', JObj [(''$sum'', JNum (Finite 1))])])]]"
  by (cases aggext) (simp_all add: totalQ_def lodash_size_def lodash_keys_def)

lemma totalQ_extended:
  "entries aggext \<noteq> [] \<Longrightarrow> lodash_isObject aggext \<Longrightarrow>
   totalQ timeVarName filt aggext =
     [JObj [(''$match'', filt)],
      JObj [(''$group'',
             JObj [(''_id'', JObj (extend_props (queryId timeVarName) (entries aggext))),
                   (''count'', JObj [(''$sum'', JNum (Finite 1))])])]]"
  by (simp add: totalQ_def lodash_size_def lodash_keys_def lodash_extend_def)

text \<open>
  Claim C6. The pipeline \<open>countByDay\<close> builds is
  \<open>[{$match: filter}, {$group: {_id: K, count: {$sum: 1}}}]\<close>. When \<open>aggext\<close> is an object
  with properties \<open>kvs\<close>, \<open>K\<close> has the properties \<open>year\<close>, \<open>month\<close> and \<open>day\<close> (the \<open>$year\<close>,
  \<open>$month\<close> and \<open>$dayOfMonth\<close> of \<open>timeVarName\<close>) overridden and extended by \<open>kvs\<close>; when it is
  an array with elements, by its elements under their indices; in every other case \<open>K\<close> is
  exactly the three properties. For a \<open>timeVarName\<close> that starts with \<open>$\<close> and a connection
  that is acquired, this pipeline is the one request handed to the driver, and the call
  ends as the driver answers it: resolved with the store's result, resolved with the empty
  array and one alarm when the store rejects, rejected when a call of the chain throws.
  When the connection fails the call is rejected and nothing is sent.
\<close>

theorem countByDay_pipeline:
  "(aggext = JObj kvs \<and> kvs \<noteq> [] \<longrightarrow>
      (\<exists>K. totalQ timeVarName filt aggext =
              [JObj [(''$match'', filt)],
               JObj [(''$group'',
                      JObj [(''_id'', JObj K),
                            (''count'', JObj [(''$sum'', JNum (Finite 1))])])]] \<and>
            distinct (map fst K) \<and>
            map_of K =
              map_of [(''year'', JObj [(''$year'', JStr timeVarName)]),
                      (''month'', JObj [(''$month'', JStr timeVarName)]),
                      (''day'', JObj [(''$dayOfMonth'', JStr timeVarName)])]
              ++ map_of (rev kvs))) \<and>
   (aggext = JArr xs \<and> xs \<noteq> [] \<longrightarrow>
      (\<exists>K. totalQ timeVarName filt aggext =
              [JObj [(''$match'', filt)],
               JObj [(''$group'',
                      JObj [(''_id'', JObj K),
                            (''count'', JObj [(''$sum'', JNum (Finite 1))])])]] \<and>
            distinct (map fst K) \<and>
            map_of K =
              map_of [(''year'', JObj [(''$year'', JStr timeVarName)]),
                      (''month'', JObj [(''$month'', JStr timeVarName)]),
                      (''day'', JObj [(''$dayOfMonth'', JStr timeVarName)])]
              ++ map_of (rev (zip (map index_key [0..<length xs]) xs)))) \<and>
   ((case aggext of JObj kvs \<Rightarrow> kvs = [] | JArr xs \<Rightarrow> xs = [] | _ \<Rightarrow> True) \<longrightarrow>
      totalQ timeVarName filt aggext =
        [JObj [(''$match'', filt)],
         JObj [(''$group'',
                JObj [(''_id'',
                       JObj [(''year'', JObj [(''$year'', JStr timeVarName)]),
                             (''month'', JObj [(''$month'', JStr timeVarName)]),
                             (''day'', JObj [(''$dayOfMonth'', JStr timeVarName)])]),
                      (''count'', JObj [(''$sum'', JNum (Finite 1))])])]]) \<and>
   (lodash_startsWith timeVarName ''$'' \<and> connectAsync D (db w) = (None, s1) \<and>
    exec D cName (Aggregate (totalQ timeVarName filt aggext)) s1 = (Fulfil v, s2) \<longrightarrow>
      countByDay D cName timeVarName filt aggext w =
        (Resolved v,
         w\<lparr>db := close D s2,
           trace := trace w @
             [Connected, Call cName (Aggregate (totalQ timeVarName filt aggext)), Closed]\<rparr>)) \<and>
   (lodash_startsWith timeVarName ''$'' \<and> connectAsync D (db w) = (None, s1) \<and>
    exec D cName (Aggregate (totalQ timeVarName filt aggext)) s1 = (Reject e, s2) \<longrightarrow>
      countByDay D cName timeVarName filt aggext w =
        (Resolved (JArr []),
         w\<lparr>db := close D s2,
           trace := trace w @
             [Connected, Call cName (Aggregate (totalQ timeVarName filt aggext)), Closed],
           alarms := alarms w @
             [\<lparr>caller = ''countByDay'', what = e,
               info = JObj [(''cName'', JStr cName), (''timeVarName'', JStr timeVarName),
                            (''filter'', filt), (''aggext'', aggext)]\<rparr>]\<rparr>)) \<and>
   (lodash_startsWith timeVarName ''$'' \<and> connectAsync D (db w) = (None, s1) \<and>
    exec D cName (Aggregate (totalQ timeVarName filt aggext)) s1 = (SyncThrow e, s2) \<longrightarrow>
      countByDay D cName timeVarName filt aggext w =
        (Rejected e, w\<lparr>db := close D s2, trace := trace w @ [Connected, Closed]\<rparr>)) \<and>
   (lodash_startsWith timeVarName ''$'' \<and> connectAsync D (db w) = (Some e, s1) \<longrightarrow>
      countByDay D cName timeVarName filt aggext w =
        (Rejected e, w\<lparr>db := s1, trace := trace w @ [ConnectFailed e]\<rparr>))"
proof -
  have dq: "distinct (map fst (queryId timeVarName))" by (simp add: queryId_def)
  have ext: "\<exists>K. totalQ timeVarName filt aggext =
              [JObj [(''$match'', filt)],
               JObj [(''$group'',
                      JObj [(''_id'', JObj K),
                            (''count'', JObj [(''$sum'', JNum (Finite 1))])])]] \<and>
            distinct (map fst K) \<and>
            map_of K = map_of (queryId timeVarName) ++ map_of (rev (entries aggext))"
    if "entries aggext \<noteq> []" and "lodash_isObject aggext"
    using that dq totalQ_extended [of aggext timeVarName filt]
    by (simp add: distinct_extend_props map_of_extend_props)
  have a: "\<exists>K. totalQ timeVarName filt aggext =
              [JObj [(''$match'', filt)],
               JObj [(''$group'',
                      JObj [(''_id'', JObj K),
                            (''count'', JObj [(''$sum'', JNum (Finite 1))])])]] \<and>
            distinct (map fst K) \<and>
            map_of K =
              map_of [(''year'', JObj [(''$year'', JStr timeVarName)]),
                      (''month'', JObj [(''$month'', JStr timeVarName)]),
                      (''day'', JObj [(''$dayOfMonth'', JStr timeVarName)])]
              ++ map_of (rev kvs)"
    if "aggext = JObj kvs" and "kvs \<noteq> []"
    using that ext unfolding queryId_def by simp
  have b: "\<exists>K. totalQ timeVarName filt aggext =
              [JObj [(''$match'', filt)],
               JObj [(''$group'',
                      JObj [(''_id'', JObj K),
                            (''count'', JObj [(''$sum'', JNum (Finite 1))])])]] \<and>
            distinct (map fst K) \<and>
            map_of K =
              map_of [(''year'', JObj [(''$year'', JStr timeVarName)]),
                      (''month'', JObj [(''$month'', JStr timeVarName)]),
                      (''day'', JObj [(''$dayOfMonth'', JStr timeVarName)])]
              ++ map_of (rev (zip (map index_key [0..<length xs]) xs))"
    if "aggext = JArr xs" and "xs \<noteq> []"
    using that ext unfolding queryId_def by simp
  have c: "totalQ timeVarName filt aggext =
        [JObj [(''$match'', filt)],
         JObj [(''$group'',
                JObj [(''_id'',
                       JObj [(''year'', JObj [(''$year'', JStr timeVarName)]),
                             (''month'', JObj [(''$month'', JStr timeVarName)]),
                             (''day'', JObj [(''$dayOfMonth'', JStr timeVarName)])]),
                      (''count'', JObj [(''$sum'', JNum (Finite 1))])])]]"
    if "case aggext of JObj kvs \<Rightarrow> kvs = [] | JArr xs \<Rightarrow> xs = [] | _ \<Rightarrow> True"
    using totalQ_plain [OF that] by (simp add: queryId_def)
  have d: "countByDay D cName timeVarName filt aggext w =
        (Resolved v,
         w\<lparr>db := close D s2,
           trace := trace w @
             [Connected, Call cName (Aggregate (totalQ timeVarName filt aggext)), Closed]\<rparr>)"
    if "lodash_startsWith timeVarName ''$''" and "connectAsync D (db w) = (None, s1)"
      and "exec D cName (Aggregate (totalQ timeVarName filt aggext)) s1 = (Fulfil v, s2)"
    using that by (simp add: countByDay_def using_caught_fulfilled)
  have f: "countByDay D cName timeVarName filt aggext w =
        (Rejected e, w\<lparr>db := close D s2, trace := trace w @ [Connected, Closed]\<rparr>)"
    if "lodash_startsWith timeVarName ''$''" and "connectAsync D (db w) = (None, s1)"
      and "exec D cName (Aggregate (totalQ timeVarName filt aggext)) s1 = (SyncThrow e, s2)"
    using that by (simp add: countByDay_def using_caught_thrown)
  have g: "countByDay D cName timeVarName filt aggext w =
        (Rejected e, w\<lparr>db := s1, trace := trace w @ [ConnectFailed e]\<rparr>)"
    if "lodash_startsWith timeVarName ''$''" and "connectAsync D (db w) = (Some e, s1)"
    using that by (simp add: countByDay_def using_refused)
  from a b c d f g countByDay_contained [of timeVarName D w s1 cName filt aggext e s2]
  show ?thesis by blast
qed

lemmas eval_props = totalQ_def lodash_size_def lodash_keys_def lodash_extend_def queryId_def
  assign_def goes_before_def array_index_def digit_of_def

theorem countByDay_pipeline_witness:
  "[(''user'', JStr ''$userId''), (''day'', JStr ''$d'')] \<noteq> [] \<and>
   (\<exists>K. totalQ ''$savingTime'' (JObj [(''p'', JStr ''abc'')])
            (JObj [(''user'', JStr ''$userId''), (''day'', JStr ''$d'')]) =
          [JObj [(''$match'', JObj [(''p'', JStr ''abc'')])],
           JObj [(''$group'',
                  JObj [(''_id'', JObj K),
                        (''count'', JObj [(''$sum'', JNum (Finite 1))])])]] \<and>
        distinct (map fst K) \<and>
        map_of K =
          map_of [(''year'', JObj [(''$year'', JStr ''$savingTime'')]),
                  (''month'', JObj [(''$month'', JStr ''$savingTime'')]),
                  (''day'', JObj [(''$dayOfMonth'', JStr ''$savingTime'')])]
          ++ map_of (rev [(''user'', JStr ''$userId''), (''day'', JStr ''$d'')])) \<and>
   totalQ ''$savingTime'' (JObj [(''p'', JStr ''abc'')])
       (JObj [(''user'', JStr ''$userId''), (''day'', JStr ''$d'')]) =
     [JObj [(''$match'', JObj [(''p'', JStr ''abc'')])],
      JObj [(''$group'',
             JObj [(''_id'',
                    JObj [(''year'', JObj [(''$year'', JStr ''$savingTime'')]),
                          (''month'', JObj [(''$month'', JStr ''$savingTime'')]),
                          (''day'', JStr ''$d''),
                          (''user'', JStr ''$userId'')]),
                   (''count'', JObj [(''$sum'', JNum (Finite 1))])])]] \<and>
   [JStr ''$a'', JStr ''$b''] \<noteq> [] \<and>
   (\<exists>K. totalQ ''$savingTime'' (JObj []) (JArr [JStr ''$a'', JStr ''$b'']) =
          [JObj [(''$match'', JObj [])],
           JObj [(''$group'',
                  JObj [(''_id'', JObj K),
                        (''count'', JObj [(''$sum'', JNum (Finite 1))])])]] \<and>
        distinct (map fst K) \<and>
        map_of K =
          map_of [(''year'', JObj [(''$year'', JStr ''$savingTime'')]),
                  (''month'', JObj [(''$month'', JStr ''$savingTime'')]),
                  (''day'', JObj [(''$dayOfMonth'', JStr ''$savingTime'')])]
          ++ map_of (rev (zip (map index_key [0..<length [JStr ''$a'', JStr ''$b'']])
                            [JStr ''$a'', JStr ''$b'']))) \<and>
   totalQ ''$savingTime'' (JObj []) (JArr [JStr ''$a'', JStr ''$b'']) =
     [JObj [(''$match'', JObj [])],
      JObj [(''$group'',
             JObj [(''_id'',
                    JObj [(''0'', JStr ''$a''), (''1'', JStr ''$b''),
                          (''year'', JObj [(''$year'', JStr ''$savingTime'')]),
                          (''month'', JObj [(''$month'', JStr ''$savingTime'')]),
                          (''day'', JObj [(''$dayOfMonth'', JStr ''$savingTime'')])]),
                   (''count'', JObj [(''$sum'', JNum (Finite 1))])])]] \<and>
   totalQ ''$savingTime'' (JObj []) JUndefined =
     [JObj [(''$match'', JObj [])],
      JObj [(''$group'',
             JObj [(''_id'',
                    JObj [(''year'', JObj [(''$year'', JStr ''$savingTime'')]),
                          (''month'', JObj [(''$month'', JStr ''$savingTime'')]),
                          (''day'', JObj [(''$dayOfMonth'', JStr ''$savingTime'')])]),
                   (''count'', JObj [(''$sum'', JNum (Finite 1))])])]] \<and>
   lodash_startsWith ''$savingTime'' ''$'' \<and>
   connectAsync sim_store (db (fresh (sim_healthy [JStr ''a''])))
     = (None, sim_healthy [JStr ''a'']) \<and>
   exec sim_store ''videos''
       (Aggregate (totalQ ''$savingTime'' (JObj []) (JObj [(''user'', JStr ''$userId'')])))
       (sim_healthy [JStr ''a''])
     = (Fulfil (JArr [JStr ''a'']), sim_healthy [JStr ''a'']) \<and>
   countByDay sim_store ''videos'' ''$savingTime'' (JObj []) (JObj [(''user'', JStr ''$userId'')])
       (fresh (sim_healthy [JStr ''a''])) =
     (Resolved (JArr [JStr ''a'']),
      \<lparr>db = sim_healthy [JStr ''a''],
        trace = [Connected,
                 Call ''videos''
                   (Aggregate (totalQ ''$savingTime'' (JObj [])
                                 (JObj [(''user'', JStr ''$userId'')]))),
                 Closed],
        alarms = []\<rparr>) \<and>
   connectAsync sim_store (db (fresh sim_failing)) = (None, sim_failing) \<and>
   exec sim_store ''videos''
       (Aggregate (totalQ ''$savingTime'' (JObj []) (JObj [(''user'', JStr ''$userId'')])))
       sim_failing
     = (Reject (Error ''simulated failure''), sim_failing) \<and>
   countByDay sim_store ''videos'' ''$savingTime'' (JObj []) (JObj [(''user'', JStr ''$userId'')])
       (fresh sim_failing) =
     (Resolved (JArr []),
      \<lparr>db = sim_failing,
        trace = [Connected,
                 Call ''videos''
                   (Aggregate (totalQ ''$savingTime'' (JObj [])
                                 (JObj [(''user'', JStr ''$userId'')]))),
                 Closed],
        alarms = [\<lparr>caller = ''countByDay'', what = Error ''simulated failure'',
                   info = JObj [(''cName'', JStr ''videos''),
                                (''timeVarName'', JStr ''$savingTime''),
                                (''filter'', JObj []),
                                (''aggext'', JObj [(''user'', JStr ''$userId'')])]\<rparr>]\<rparr>) \<and>
   exec sim_store []
       (Aggregate (totalQ ''$savingTime'' (JObj []) (JObj [(''user'', JStr ''$userId'')])))
       sim_failing
     = (SyncThrow (Error ''collection names cannot be empty''), sim_failing) \<and>
   countByDay sim_store [] ''$savingTime'' (JObj []) (JObj [(''user'', JStr ''$userId'')])
       (fresh sim_failing) =
     (Rejected (Error ''collection names cannot be empty''),
      \<lparr>db = sim_failing, trace = [Connected, Closed], alarms = []\<rparr>) \<and>
   connectAsync sim_store (db (fresh sim_offline))
     = (Some (Error ''connect ECONNREFUSED''), sim_offline) \<and>
   countByDay sim_store ''videos'' ''$savingTime'' (JObj []) (JObj [(''user'', JStr ''$userId'')])
       (fresh sim_offline) =
     (Rejected (Error ''connect ECONNREFUSED''),
      \<lparr>db = sim_offline,
        trace = [ConnectFailed (Error ''connect ECONNREFUSED'')], alarms = []\<rparr>)"
proof -
  have e1: "totalQ ''$savingTime'' (JObj [(''p'', JStr ''abc'')])
       (JObj [(''user'', JStr ''$userId''), (''day'', JStr ''$d'')]) =
     [JObj [(''$match'', JObj [(''p'', JStr ''abc'')])],
      JObj [(''$group'',
             JObj [(''_id'',
                    JObj [(''year'', JObj [(''$year'', JStr ''$savingTime'')]),
                          (''month'', JObj [(''$month'', JStr ''$savingTime'')]),
                          (''day'', JStr ''$d''),
                          (''user'', JStr ''$userId'')]),
                   (''count'', JObj [(''$sum'', JNum (Finite 1))])])]]"
    by (simp add: eval_props)
  have e2: "totalQ ''$savingTime'' (JObj []) (JArr [JStr ''$a'', JStr ''$b'']) =
     [JObj [(''$match'', JObj [])],
      JObj [(''$group'',
             JObj [(''_id'',
                    JObj [(''0'', JStr ''$a''), (''1'', JStr ''$b''),
                          (''year'', JObj [(''$year'', JStr ''$savingTime'')]),
                          (''month'', JObj [(''$month'', JStr ''$savingTime'')]),
                          (''day'', JObj [(''$dayOfMonth'', JStr ''$savingTime'')])]),
                   (''count'', JObj [(''$sum'', JNum (Finite 1))])])]]"
    by (simp add: eval_props index_key.simps upt_rec)
  note t = countByDay_pipeline
  have n1: "[(''user'', JStr ''$userId''), (''day'', JStr ''$d'')] \<noteq> []" by simp
  have n2: "[JStr ''$a'', JStr ''$b''] \<noteq> []" by simp
  from n1 t [where aggext = "JObj [(''user'', JStr ''$userId''), (''day'', JStr ''$d'')]"
            and kvs = "[(''user'', JStr ''$userId''), (''day'', JStr ''$d'')]"
            and timeVarName = "''$savingTime''" and filt = "JObj [(''p'', JStr ''abc'')]",
            THEN conjunct1]
  have p1: "\<exists>K. totalQ ''$savingTime'' (JObj [(''p'', JStr ''abc'')])
            (JObj [(''user'', JStr ''$userId''), (''day'', JStr ''$d'')]) =
          [JObj [(''$match'', JObj [(''p'', JStr ''abc'')])],
           JObj [(''$group'',
                  JObj [(''_id'', JObj K),
                        (''count'', JObj [(''$sum'', JNum (Finite 1))])])]] \<and>
        distinct (map fst K) \<and>
        map_of K =
          map_of [(''year'', JObj [(''$year'', JStr ''$savingTime'')]),
                  (''month'', JObj [(''$month'', JStr ''$savingTime'')]),
                  (''day'', JObj [(''$dayOfMonth'', JStr ''$savingTime'')])]
          ++ map_of (rev [(''user'', JStr ''$userId''), (''day'', JStr ''$d'')])"
    by (simp only: simp_thms)
  from n2 t [where aggext = "JArr [JStr ''$a'', JStr ''$b'']" and xs = "[JStr ''$a'', JStr ''$b'']"
            and timeVarName = "''$savingTime''" and filt = "JObj []",
            THEN conjunct2, THEN conjunct1]
  have p2: "\<exists>K. totalQ ''$savingTime'' (JObj []) (JArr [JStr ''$a'', JStr ''$b'']) =
          [JObj [(''$match'', JObj [])],
           JObj [(''$group'',
                  JObj [(''_id'', JObj K),
                        (''count'', JObj [(''$sum'', JNum (Finite 1))])])]] \<and>
        distinct (map fst K) \<and>
        map_of K =
          map_of [(''year'', JObj [(''$year'', JStr ''$savingTime'')]),
                  (''month'', JObj [(''$month'', JStr ''$savingTime'')]),
                  (''day'', JObj [(''$dayOfMonth'', JStr ''$savingTime'')])]
          ++ map_of (rev (zip (map index_key [0..<length [JStr ''$a'', JStr ''$b'']])
                            [JStr ''$a'', JStr ''$b'']))"
    by (simp only: simp_thms)
  from t [where aggext = JUndefined and timeVarName = "''$savingTime''" and filt = "JObj []",
            THEN conjunct2, THEN conjunct2, THEN conjunct1]
  have p3: "totalQ ''$savingTime'' (JObj []) JUndefined =
     [JObj [(''$match'', JObj [])],
      JObj [(''$group'',
             JObj [(''_id'',
                    JObj [(''year'', JObj [(''$year'', JStr ''$savingTime'')]),
                          (''month'', JObj [(''$month'', JStr ''$savingTime'')]),
                          (''day'', JObj [(''$dayOfMonth'', JStr ''$savingTime'')])]),
                   (''count'', JObj [(''$sum'', JNum (Finite 1))])])]]"
    by (simp only: jsval.case simp_thms)
  have y: "lodash_startsWith ''$savingTime'' ''$''"
    by (simp add: lodash_startsWith_def)
  have c1: "connectAsync sim_store (db (fresh (sim_healthy [JStr ''a''])))
     = (None, sim_healthy [JStr ''a''])"
    by (simp add: sim_connects sim_healthy_def)
  have x1: "exec sim_store ''videos'' (Aggregate q) (sim_healthy [JStr ''a''])
     = (Fulfil (JArr [JStr ''a'']), sim_healthy [JStr ''a''])" for q
    by (simp add: sim_store_def sim_exec_def sim_healthy_def)
  have c2: "connectAsync sim_store (db (fresh sim_failing)) = (None, sim_failing)"
    by (simp add: sim_connects sim_failing_def)
  have c3: "connectAsync sim_store (db (fresh sim_offline))
     = (Some (Error ''connect ECONNREFUSED''), sim_offline)"
    by (simp add: sim_refuses sim_offline_def)
  have d: "countByDay sim_store ''videos'' ''$savingTime'' (JObj [])
       (JObj [(''user'', JStr ''$userId'')]) (fresh (sim_healthy [JStr ''a''])) =
     (Resolved (JArr [JStr ''a'']),
      \<lparr>db = sim_healthy [JStr ''a''],
        trace = [Connected,
                 Call ''videos''
                   (Aggregate (totalQ ''$savingTime'' (JObj [])
                                 (JObj [(''user'', JStr ''$userId'')]))),
                 Closed],
        alarms = []\<rparr>)"
    using t [where D = sim_store and w = "fresh (sim_healthy [JStr ''a''])"
               and ?s1.0 = "sim_healthy [JStr ''a'']" and ?s2.0 = "sim_healthy [JStr ''a'']"
               and v = "JArr [JStr ''a'']" and cName = "''videos''"
               and timeVarName = "''$savingTime''" and filt = "JObj []"
               and aggext = "JObj [(''user'', JStr ''$userId'')]",
               THEN conjunct2, THEN conjunct2, THEN conjunct2, THEN conjunct1]
      y c1 x1
    by (simp add: fresh_def sim_close)
  have f: "countByDay sim_store ''videos'' ''$savingTime'' (JObj [])
       (JObj [(''user'', JStr ''$userId'')]) (fresh sim_failing) =
     (Resolved (JArr []),
      \<lparr>db = sim_failing,
        trace = [Connected,
                 Call ''videos''
                   (Aggregate (totalQ ''$savingTime'' (JObj [])
                                 (JObj [(''user'', JStr ''$userId'')]))),
                 Closed],
        alarms = [\<lparr>caller = ''countByDay'', what = Error ''simulated failure'',
                   info = JObj [(''cName'', JStr ''videos''),
                                (''timeVarName'', JStr ''$savingTime''),
                                (''filter'', JObj []),
                                (''aggext'', JObj [(''user'', JStr ''$userId'')])]\<rparr>]\<rparr>)"
    using t [where D = sim_store and w = "fresh sim_failing"
               and ?s1.0 = sim_failing and ?s2.0 = sim_failing
               and e = "Error ''simulated failure''" and cName = "''videos''"
               and timeVarName = "''$savingTime''" and filt = "JObj []"
               and aggext = "JObj [(''user'', JStr ''$userId'')]",
               THEN conjunct2, THEN conjunct2, THEN conjunct2, THEN conjunct2, THEN conjunct1]
      y c2
    by (simp add: fresh_def sim_close sim_failing_exec)
  have g: "countByDay sim_store [] ''$savingTime'' (JObj [])
       (JObj [(''user'', JStr ''$userId'')]) (fresh sim_failing) =
     (Rejected (Error ''collection names cannot be empty''),
      \<lparr>db = sim_failing, trace = [Connected, Closed], alarms = []\<rparr>)"
    using t [where D = sim_store and w = "fresh sim_failing"
               and ?s1.0 = sim_failing and ?s2.0 = sim_failing
               and e = "Error ''collection names cannot be empty''" and cName = "[]"
               and timeVarName = "''$savingTime''" and filt = "JObj []"
               and aggext = "JObj [(''user'', JStr ''$userId'')]",
               THEN conjunct2, THEN conjunct2, THEN conjunct2, THEN conjunct2, THEN conjunct2,
               THEN conjunct1]
      y c2
    by (simp add: fresh_def sim_close sim_unnamed_exec)
  have h: "countByDay sim_store ''videos'' ''$savingTime'' (JObj [])
       (JObj [(''user'', JStr ''$userId'')]) (fresh sim_offline) =
     (Rejected (Error ''connect ECONNREFUSED''),
      \<lparr>db = sim_offline,
        trace = [ConnectFailed (Error ''connect ECONNREFUSED'')], alarms = []\<rparr>)"
    using t [where D = sim_store and w = "fresh sim_offline" and ?s1.0 = sim_offline
               and e = "Error ''connect ECONNREFUSED''" and cName = "''videos''"
               and timeVarName = "''$savingTime''" and filt = "JObj []"
               and aggext = "JObj [(''user'', JStr ''$userId'')]",
               THEN conjunct2, THEN conjunct2, THEN conjunct2, THEN conjunct2, THEN conjunct2,
               THEN conjunct2]
      y c3
    by (simp add: fresh_def)
  have x2: "exec sim_store ''videos''
       (Aggregate (totalQ ''$savingTime'' (JObj []) (JObj [(''user'', JStr ''$userId'')])))
       sim_failing
     = (Reject (Error ''simulated failure''), sim_failing)"
    by (simp add: sim_failing_exec)
  have x3: "exec sim_store []
       (Aggregate (totalQ ''$savingTime'' (JObj []) (JObj [(''user'', JStr ''$userId'')])))
       sim_failing
     = (SyncThrow (Error ''collection names cannot be empty''), sim_failing)"
    by (simp add: sim_unnamed_exec)
  show ?thesis
    by (intro conjI) (fact n1 p1 e1 n2 p2 e2 p3 y c1 x1 d c2 x2 f x3 g c3 h)+
qed

text \<open>
  Claim C7. When the connection is acquired, the one request \<open>countByObject\<close> hands to the
  driver is the pipeline \<open>[{$group: {_id: G, count: {$sum: 1}}}, {$sort: {count: -1}}]\<close>,
  where \<open>G\<close> is the grouping object of the caller, and \<open>{}\<close> when that argument is
  \<open>undefined\<close> (left out). The call ends as the driver answers that request: it resolves
  with exactly what the store returns for it, in the store's order; it resolves with the
  empty array and one alarm when the store rejects; it is rejected when a call of the
  chain throws. When the connection fails the call is rejected and nothing is sent.
\<close>

theorem countByObject_pipeline:
  "(connectAsync D (db w) = (None, s1) \<and>
    exec D cName
      (Aggregate
         [JObj [(''$group'',
                 JObj [(''_id'', if idobj = JUndefined then JObj [] else idobj),
                       (''count'', JObj [(''$sum'', JNum (Finite 1))])])],
          JObj [(''$sort'', JObj [(''count'', JNum (Finite (- 1)))])]]) s1 = (Fulfil v, s2) \<longrightarrow>
      countByObject D cName idobj w =
        (Resolved v,
         w\<lparr>db := close D s2,
           trace := trace w @
             [Connected,
              Call cName
                (Aggregate
                   [JObj [(''$group'',
                           JObj [(''_id'', if idobj = JUndefined then JObj [] else idobj),
                                 (''count'', JObj [(''$sum'', JNum (Finite 1))])])],
                    JObj [(''$sort'', JObj [(''count'', JNum (Finite (- 1)))])]]),
              Closed]\<rparr>)) \<and>
   (connectAsync D (db w) = (None, s1) \<and>
    exec D cName
      (Aggregate
         [JObj [(''$group'',
                 JObj [(''_id'', if idobj = JUndefined then JObj [] else idobj),
                       (''count'', JObj [(''$sum'', JNum (Finite 1))])])],
          JObj [(''$sort'', JObj [(''count'', JNum (Finite (- 1)))])]]) s1 = (Reject e, s2) \<longrightarrow>
      countByObject D cName idobj w =
        (Resolved (JArr []),
         w\<lparr>db := close D s2,
           trace := trace w @
             [Connected,
              Call cName
                (Aggregate
                   [JObj [(''$group'',
                           JObj [(''_id'', if idobj = JUndefined then JObj [] else idobj),
                                 (''count'', JObj [(''$sum'', JNum (Finite 1))])])],
                    JObj [(''$sort'', JObj [(''count'', JNum (Finite (- 1)))])]]),
              Closed],
           alarms := alarms w @
             [\<lparr>caller = ''countByObject'', what = e,
               info = JObj [(''cName'', JStr cName),
                            (''idobj'', if idobj = JUndefined then JObj [] else idobj)]\<rparr>]\<rparr>)) \<and>
   (connectAsync D (db w) = (None, s1) \<and>
    exec D cName
      (Aggregate
         [JObj [(''$group'',
                 JObj [(''_id'', if idobj = JUndefined then JObj [] else idobj),
                       (''count'', JObj [(''$sum'', JNum (Finite 1))])])],
          JObj [(''$sort'', JObj [(''count'', JNum (Finite (- 1)))])]]) s1
      = (SyncThrow e, s2) \<longrightarrow>
      countByObject D cName idobj w =
        (Rejected e, w\<lparr>db := close D s2, trace := trace w @ [Connected, Closed]\<rparr>)) \<and>
   (connectAsync D (db w) = (Some e, s1) \<longrightarrow>
      countByObject D cName idobj w =
        (Rejected e, w\<lparr>db := s1, trace := trace w @ [ConnectFailed e]\<rparr>))"
  by (simp add: countByObject_def Let_def lodash_isUndefined_def groupSortQ_def using_refused
        using_caught_fulfilled using_caught_rejected using_caught_thrown)

theorem countByObject_pipeline_witness:
  "connectAsync sim_store (db (fresh (sim_healthy [JStr ''a''])))
     = (None, sim_healthy [JStr ''a'']) \<and>
   exec sim_store ''videos''
      (Aggregate
         [JObj [(''$group'',
                 JObj [(''_id'', JObj []),
                       (''count'', JObj [(''$sum'', JNum (Finite 1))])])],
          JObj [(''$sort'', JObj [(''count'', JNum (Finite (- 1)))])]])
      (sim_healthy [JStr ''a''])
     = (Fulfil (JArr [JStr ''a'']), sim_healthy [JStr ''a'']) \<and>
   countByObject sim_store ''videos'' JUndefined (fresh (sim_healthy [JStr ''a''])) =
     (Resolved (JArr [JStr ''a'']),
      \<lparr>db = sim_healthy [JStr ''a''],
        trace =
          [Connected,
           Call ''videos''
             (Aggregate
                [JObj [(''$group'',
                        JObj [(''_id'', JObj []),
                              (''count'', JObj [(''$sum'', JNum (Finite 1))])])],
                 JObj [(''$sort'', JObj [(''count'', JNum (Finite (- 1)))])]]),
           Closed],
        alarms = []\<rparr>) \<and>
   exec sim_store ''videos''
      (Aggregate
         [JObj [(''$group'',
                 JObj [(''_id'', JObj [(''user'', JStr ''$userId'')]),
                       (''count'', JObj [(''$sum'', JNum (Finite 1))])])],
          JObj [(''$sort'', JObj [(''count'', JNum (Finite (- 1)))])]])
      (sim_healthy [JStr ''a''])
     = (Fulfil (JArr [JStr ''a'']), sim_healthy [JStr ''a'']) \<and>
   countByObject sim_store ''videos'' (JObj [(''user'', JStr ''$userId'')])
       (fresh (sim_healthy [JStr ''a''])) =
     (Resolved (JArr [JStr ''a'']),
      \<lparr>db = sim_healthy [JStr ''a''],
        trace =
          [Connected,
           Call ''videos''
             (Aggregate
                [JObj [(''$group'',
                        JObj [(''_id'', JObj [(''user'', JStr ''$userId'')]),
                              (''count'', JObj [(''$sum'', JNum (Finite 1))])])],
                 JObj [(''$sort'', JObj [(''count'', JNum (Finite (- 1)))])]]),
           Closed],
        alarms = []\<rparr>) \<and>
   connectAsync sim_store (db (fresh sim_failing)) = (None, sim_failing) \<and>
   countByObject sim_store ''videos'' JUndefined (fresh sim_failing) =
     (Resolved (JArr []),
      \<lparr>db = sim_failing,
        trace =
          [Connected,
           Call ''videos''
             (Aggregate
                [JObj [(''$group'',
                        JObj [(''_id'', JObj []),
                              (''count'', JObj [(''$sum'', JNum (Finite 1))])])],
                 JObj [(''$sort'', JObj [(''count'', JNum (Finite (- 1)))])]]),
           Closed],
        alarms = [\<lparr>caller = ''countByObject'', what = Error ''simulated failure'',
                   info = JObj [(''cName'', JStr ''videos''), (''idobj'', JObj [])]\<rparr>]\<rparr>) \<and>
   countByObject sim_store [] JUndefined (fresh sim_failing) =
     (Rejected (Error ''collection names cannot be empty''),
      \<lparr>db = sim_failing, trace = [Connected, Closed], alarms = []\<rparr>) \<and>
   connectAsync sim_store (db (fresh sim_offline))
     = (Some (Error ''connect ECONNREFUSED''), sim_offline) \<and>
   countByObject sim_store ''videos'' JUndefined (fresh sim_offline) =
     (Rejected (Error ''connect ECONNREFUSED''),
      \<lparr>db = sim_offline,
        trace = [ConnectFailed (Error ''connect ECONNREFUSED'')], alarms = []\<rparr>)"
proof -
  have c1: "connectAsync sim_store (db (fresh (sim_healthy [JStr ''a''])))
     = (None, sim_healthy [JStr ''a''])"
    by (simp add: sim_connects sim_healthy_def)
  have x1: "exec sim_store ''videos'' (Aggregate q) (sim_healthy [JStr ''a''])
     = (Fulfil (JArr [JStr ''a'']), sim_healthy [JStr ''a''])" for q
    by (simp add: sim_store_def sim_exec_def sim_healthy_def)
  have c2: "connectAsync sim_store (db (fresh sim_failing)) = (None, sim_failing)"
    by (simp add: sim_connects sim_failing_def)
  have c3: "connectAsync sim_store (db (fresh sim_offline))
     = (Some (Error ''connect ECONNREFUSED''), sim_offline)"
    by (simp add: sim_refuses sim_offline_def)
  note t = countByObject_pipeline
  show ?thesis
    using t [where D = sim_store and w = "fresh (sim_healthy [JStr ''a''])"
               and ?s1.0 = "sim_healthy [JStr ''a'']" and ?s2.0 = "sim_healthy [JStr ''a'']"
               and v = "JArr [JStr ''a'']" and cName = "''videos''" and idobj = JUndefined]
      t [where D = sim_store and w = "fresh (sim_healthy [JStr ''a''])"
               and ?s1.0 = "sim_healthy [JStr ''a'']" and ?s2.0 = "sim_healthy [JStr ''a'']"
               and v = "JArr [JStr ''a'']" and cName = "''videos''"
               and idobj = "JObj [(''user'', JStr ''$userId'')]"]
      t [where D = sim_store and w = "fresh sim_failing" and ?s1.0 = sim_failing
               and ?s2.0 = sim_failing and e = "Error ''simulated failure''"
               and cName = "''videos''" and idobj = JUndefined]
      t [where D = sim_store and w = "fresh sim_failing" and ?s1.0 = sim_failing
               and ?s2.0 = sim_failing and e = "Error ''collection names cannot be empty''"
               and cName = "[]" and idobj = JUndefined]
      t [where D = sim_store and w = "fresh sim_offline" and ?s1.0 = sim_offline
               and e = "Error ''connect ECONNREFUSED''" and cName = "''videos''"
               and idobj = JUndefined]
      c1 x1 c2 c3
    by (simp add: fresh_def sim_close sim_failing_exec sim_unnamed_exec)
qed

section \<open>The paginated read\<close>








section \<open>The batch update\<close>

lemma check_ids_None: "check_ids es = None \<longleftrightarrow> list_all has_id es"
  by (induction es) (auto simp: has_id_def lodash_isUndefined_def split: sum.splits)

lemma has_id_object:
  "has_id e \<longleftrightarrow> (\<exists>kvs i. e = JObj kvs \<and> map_of kvs ''id'' = Some i \<and> i \<noteq> JUndefined)"
  by (cases e) (auto simp: has_id_def split: option.splits)

lemma get_id_object: "map_of kvs ''id'' = Some i \<Longrightarrow> get_id (JObj kvs) = Inr i"
  by simp

lemma update_element_fulfilled:
  assumes "map_of kvs ''id'' = Some i" and "connectAsync D (db w) = (None, s1)"
    and "exec D c (Update (JObj [(''id'', i)]) (JObj kvs)) s1 = (Fulfil v, s2)"
  shows "update_element D c (JObj kvs) w =
     (Resolved v,
      w\<lparr>db := close D s2,
        trace := trace w @
          [Connected, Call c (Update (JObj [(''id'', i)]) (JObj kvs)), Closed]\<rparr>)"
  using assms
  by (simp add: update_element_def using_connected plain_call_def driver_call_def dispose_def)

lemma update_element_rejected:
  assumes "map_of kvs ''id'' = Some i" and "connectAsync D (db w) = (None, s1)"
    and "exec D c (Update (JObj [(''id'', i)]) (JObj kvs)) s1 = (Reject err, s2)"
  shows "update_element D c (JObj kvs) w =
     (Rejected err,
      w\<lparr>db := close D s2,
        trace := trace w @
          [Connected, Call c (Update (JObj [(''id'', i)]) (JObj kvs)), Closed]\<rparr>)"
  using assms
  by (simp add: update_element_def using_connected plain_call_def driver_call_def dispose_def)

lemma update_element_thrown:
  assumes "map_of kvs ''id'' = Some i" and "connectAsync D (db w) = (None, s1)"
    and "exec D c (Update (JObj [(''id'', i)]) (JObj kvs)) s1 = (SyncThrow err, s2)"
  shows "update_element D c (JObj kvs) w =
     (Rejected err, w\<lparr>db := close D s2, trace := trace w @ [Connected, Closed]\<rparr>)"
  using assms
  by (simp add: update_element_def using_connected plain_call_def driver_call_def dispose_def)

lemma update_element_refused:
  assumes "connectAsync D (db w) = (Some err, s1)"
  shows "update_element D c e w =
     (Rejected err, w\<lparr>db := s1, trace := trace w @ [ConnectFailed err]\<rparr>)"
  using assms by (simp add: update_element_def using_refused)

lemma update_element_never_throws: "fst (update_element D c e w) \<noteq> Throws x"
  by (simp add: update_element_def using_never_throws)

text \<open>On a batch that passes the check, \<open>updateMany\<close> is the loop over its elements.\<close>

lemma updateMany_checked:
  "list_all has_id es \<Longrightarrow>
   updateMany D c es w =
     (case Promise_each (update_element D c) es w of
        (Some err, w') \<Rightarrow> (Rejected err, w')
      | (None, w') \<Rightarrow> (Resolved (JArr es), w'))"
  by (simp add: updateMany_def check_ids_None [symmetric])

lemma updateMany_step_ok:
  assumes "list_all has_id (e # es)" and "update_element D c e w = (Resolved v, w1)"
  shows "updateMany D c (e # es) w =
     (case updateMany D c es w1 of
        (Resolved u, w') \<Rightarrow> (Resolved (JArr (e # es)), w')
      | (Rejected err', w') \<Rightarrow> (Rejected err', w')
      | (Throws err', w') \<Rightarrow> (Throws err', w'))"
  using assms
  by (simp add: updateMany_checked split: prod.splits option.splits)

lemma updateMany_step_fail:
  assumes "list_all has_id (e # es)" and "update_element D c e w = (Rejected err, w1)"
  shows "updateMany D c (e # es) w = (Rejected err, w1)"
  using assms by (simp add: updateMany_checked)

lemma update_element_resolved:
  assumes "update_element D c e w = (Resolved v, w1)"
  shows "trace w1 = trace w @ update_scope c e"
proof (cases "connectAsync D (db w)")
  case (Pair x s)
  show ?thesis
  proof (cases x)
    case (Some err)
    with Pair assms show ?thesis by (simp add: update_element_def using_refused)
  next
    case None
    show ?thesis
    proof (cases "get_id e")
      case (Inl err)
      with Pair None assms show ?thesis
        by (simp add: update_element_def using_connected)
    next
      case (Inr i)
      obtain rep s2 where x: "exec D c (Update (JObj [(''id'', i)]) e) s = (rep, s2)"
        by (cases "exec D c (Update (JObj [(''id'', i)]) e) s")
      with Pair None Inr assms show ?thesis
        by (cases rep)
          (auto simp: update_element_def using_connected update_scope_def id_of_def dispose_def
             plain_call_def driver_call_def)
    qed
  qed
qed

lemma each_resolved:
  "Promise_each (update_element D c) es w = (None, w') \<Longrightarrow>
   trace w' = trace w @ concat (map (update_scope c) es)"
proof (induction es arbitrary: w)
  case Nil
  then show ?case by simp
next
  case (Cons x xs)
  obtain out w1 where step: "update_element D c x w = (out, w1)"
    by (cases "update_element D c x w")
  with Cons.prems obtain v where out: "out = Resolved v"
    by (cases out) auto
  from step out have "trace w1 = trace w @ update_scope c x"
    by (simp add: update_element_resolved)
  moreover from Cons.prems step out have "Promise_each (update_element D c) xs w1 = (None, w')"
    by simp
  ultimately show ?case using Cons.IH[of w1] by simp
qed

lemma each_aborts:
  "Promise_each f pre w = (None, w1) \<Longrightarrow> f e w1 = (Rejected err, w2) \<Longrightarrow>
   Promise_each f (pre @ e # post) w = (Some err, w2)"
proof (induction pre arbitrary: w)
  case Nil
  then show ?case by simp
next
  case (Cons x xs)
  obtain out w0 where step: "f x w = (out, w0)" by (cases "f x w")
  with Cons.prems(1) obtain v where out: "out = Resolved v" by (cases out) auto
  with Cons step show ?case by simp
qed

lemma updateMany_aborts:
  assumes "list_all has_id (pre @ e # post)"
    and "updateMany D c pre w = (Resolved v1, w1)"
    and "updateMany D c [e] w1 = (Rejected err, w2)"
  shows "updateMany D c (pre @ e # post) w = (Rejected err, w2)"
proof -
  from assms(1) have p: "list_all has_id pre" and e: "list_all has_id [e]" by simp_all
  from assms(2) p have "Promise_each (update_element D c) pre w = (None, w1)"
    by (auto simp: updateMany_checked split: prod.splits option.splits)
  moreover have "update_element D c e w1 = (Rejected err, w2)"
  proof -
    obtain out w' where u: "update_element D c e w1 = (out, w')"
      by (cases "update_element D c e w1")
    have "out \<noteq> Throws x" for x
      using u update_element_never_throws [of D c e w1 x] by auto
    with u assms(3) e show ?thesis
      by (cases out) (auto simp: updateMany_checked)
  qed
  ultimately have "Promise_each (update_element D c) (pre @ e # post) w = (Some err, w2)"
    by (rule each_aborts)
  with assms(1) show ?thesis by (simp add: updateMany_checked)
qed

text \<open>
  Claim C8. When some element of the batch has no \<open>id\<close>, \<open>updateMany\<close> throws and leaves
  the world as it was: no connection is asked for and nothing is written. When every
  element has one, it does not throw, and it runs the batch from its first element, each
  element in a connection scope of its own: with the connection acquired, it hands the
  update of the element \<open>e\<close>, with the selector \<open>{id: e.id}\<close>, to the driver; when the driver
  fulfils it, the connection is closed and the rest of the batch runs in the world this
  left, and the call resolves with the batch when the rest resolves; when the driver
  rejects it, or a call of the chain throws, or the connection fails, the call is
  rejected with that error in the world the failed attempt left, whatever elements come
  after. So a batch that resolves has run one update per element in the order of the
  batch, and when the elements of \<open>pre\<close> have been updated and the next element fails, the
  elements after it are not touched and nothing done for \<open>pre\<close> is undone.
\<close>

theorem updateMany_checks_then_updates_in_order:
  "(\<not> list_all has_id elist \<longrightarrow> (\<exists>err. updateMany D cName elist w = (Throws err, w))) \<and>
   (list_all has_id elist \<longrightarrow> fst (updateMany D cName elist w) \<noteq> Throws err) \<and>
   updateMany D cName [] w = (Resolved (JArr []), w) \<and>
   (list_all has_id (JObj kvs # es) \<and> map_of kvs ''id'' = Some i \<and>
    connectAsync D (db w) = (None, s1) \<and>
    exec D cName (Update (JObj [(''id'', i)]) (JObj kvs)) s1 = (Fulfil v, s2) \<longrightarrow>
      updateMany D cName (JObj kvs # es) w =
        (case updateMany D cName es
                (w\<lparr>db := close D s2,
                   trace := trace w @
                     [Connected, Call cName (Update (JObj [(''id'', i)]) (JObj kvs)),
                      Closed]\<rparr>) of
           (Resolved u, w') \<Rightarrow> (Resolved (JArr (JObj kvs # es)), w')
         | (Rejected err', w') \<Rightarrow> (Rejected err', w')
         | (Throws err', w') \<Rightarrow> (Throws err', w'))) \<and>
   (list_all has_id (JObj kvs # es) \<and> map_of kvs ''id'' = Some i \<and>
    connectAsync D (db w) = (None, s1) \<and>
    exec D cName (Update (JObj [(''id'', i)]) (JObj kvs)) s1 = (Reject err, s2) \<longrightarrow>
      updateMany D cName (JObj kvs # es) w =
        (Rejected err,
         w\<lparr>db := close D s2,
           trace := trace w @
             [Connected, Call cName (Update (JObj [(''id'', i)]) (JObj kvs)), Closed]\<rparr>)) \<and>
   (list_all has_id (JObj kvs # es) \<and> map_of kvs ''id'' = Some i \<and>
    connectAsync D (db w) = (None, s1) \<and>
    exec D cName (Update (JObj [(''id'', i)]) (JObj kvs)) s1 = (SyncThrow err, s2) \<longrightarrow>
      updateMany D cName (JObj kvs # es) w =
        (Rejected err, w\<lparr>db := close D s2, trace := trace w @ [Connected, Closed]\<rparr>)) \<and>
   (list_all has_id (e # es) \<and> connectAsync D (db w) = (Some err, s1) \<longrightarrow>
      updateMany D cName (e # es) w =
        (Rejected err, w\<lparr>db := s1, trace := trace w @ [ConnectFailed err]\<rparr>)) \<and>
   (updateMany D cName elist w = (Resolved v, w') \<longrightarrow>
      v = JArr elist \<and> trace w' = trace w @ concat (map (update_scope cName) elist)) \<and>
   (list_all has_id (pre @ e # post) \<and> updateMany D cName pre w = (Resolved v1, w1) \<and>
    updateMany D cName [e] w1 = (Rejected err, w2) \<longrightarrow>
      updateMany D cName (pre @ e # post) w = (Rejected err, w2))"
proof -
  have a: "\<exists>err. updateMany D cName elist w = (Throws err, w)" if "\<not> list_all has_id elist"
  proof -
    from that obtain err where "check_ids elist = Some err"
      using check_ids_None[of elist] by (cases "check_ids elist") auto
    then show ?thesis by (simp add: updateMany_def)
  qed
  have b: "fst (updateMany D cName elist w) \<noteq> Throws err" if "list_all has_id elist"
    using that by (simp add: updateMany_checked split: prod.splits option.splits)
  have c: "updateMany D cName [] w = (Resolved (JArr []), w)"
    by (simp add: updateMany_def)
  have d: "updateMany D cName (JObj kvs # es) w =
        (case updateMany D cName es
                (w\<lparr>db := close D s2,
                   trace := trace w @
                     [Connected, Call cName (Update (JObj [(''id'', i)]) (JObj kvs)),
                      Closed]\<rparr>) of
           (Resolved u, w') \<Rightarrow> (Resolved (JArr (JObj kvs # es)), w')
         | (Rejected err', w') \<Rightarrow> (Rejected err', w')
         | (Throws err', w') \<Rightarrow> (Throws err', w'))"
    if "list_all has_id (JObj kvs # es)" and "map_of kvs ''id'' = Some i"
      and "connectAsync D (db w) = (None, s1)"
      and "exec D cName (Update (JObj [(''id'', i)]) (JObj kvs)) s1 = (Fulfil v, s2)"
    using updateMany_step_ok [OF that(1) update_element_fulfilled [OF that(2) that(3) that(4)]]
    by simp
  have f: "updateMany D cName (JObj kvs # es) w =
        (Rejected err,
         w\<lparr>db := close D s2,
           trace := trace w @
             [Connected, Call cName (Update (JObj [(''id'', i)]) (JObj kvs)), Closed]\<rparr>)"
    if "list_all has_id (JObj kvs # es)" and "map_of kvs ''id'' = Some i"
      and "connectAsync D (db w) = (None, s1)"
      and "exec D cName (Update (JObj [(''id'', i)]) (JObj kvs)) s1 = (Reject err, s2)"
    using updateMany_step_fail [OF that(1) update_element_rejected [OF that(2) that(3) that(4)]]
    by simp
  have g: "updateMany D cName (JObj kvs # es) w =
        (Rejected err, w\<lparr>db := close D s2, trace := trace w @ [Connected, Closed]\<rparr>)"
    if "list_all has_id (JObj kvs # es)" and "map_of kvs ''id'' = Some i"
      and "connectAsync D (db w) = (None, s1)"
      and "exec D cName (Update (JObj [(''id'', i)]) (JObj kvs)) s1 = (SyncThrow err, s2)"
    using updateMany_step_fail [OF that(1) update_element_thrown [OF that(2) that(3) that(4)]]
    by simp
  have h: "updateMany D cName (e # es) w =
        (Rejected err, w\<lparr>db := s1, trace := trace w @ [ConnectFailed err]\<rparr>)"
    if "list_all has_id (e # es)" and "connectAsync D (db w) = (Some err, s1)"
    using updateMany_step_fail [OF that(1) update_element_refused [OF that(2)]]
    by simp
  have k: "v = JArr elist \<and> trace w' = trace w @ concat (map (update_scope cName) elist)"
    if "updateMany D cName elist w = (Resolved v, w')"
  proof -
    from that have "v = JArr elist \<and> Promise_each (update_element D cName) elist w = (None, w')"
      by (auto simp: updateMany_def split: prod.splits option.splits)
    then show ?thesis by (auto dest: each_resolved)
  qed
  from a b c d f g h k updateMany_aborts [of pre e post D cName w v1 w1 err w2]
  show ?thesis by blast
qed


lemmas sim_run = updateMany_def update_element_def Promise_using_def dbConnection_def
  plain_call_def driver_call_def dispose_def sim_store_def sim_exec_def fresh_def sim_fuse_def
  elem_def lodash_isUndefined_def

theorem updateMany_checks_then_updates_in_order_witness:
  "\<not> list_all has_id [elem 1, JObj [(''seen'', JBool True)], elem 3] \<and>
   (\<exists>err. updateMany sim_store ''videos'' [elem 1, JObj [(''seen'', JBool True)], elem 3]
            (fresh (sim_fuse 2)) = (Throws err, fresh (sim_fuse 2))) \<and>
   list_all has_id [elem 1, elem 2, elem 3] \<and>
   fst (updateMany sim_store ''videos'' [elem 1, elem 2, elem 3] (fresh (sim_fuse 1)))
     \<noteq> Throws (Error ''simulated failure'') \<and>
   updateMany sim_store ''videos'' [] (fresh (sim_fuse 1))
     = (Resolved (JArr []), fresh (sim_fuse 1)) \<and>
   list_all has_id [elem 1, elem 2] \<and>
   map_of [(''id'', JNum (Finite 1)), (''seen'', JBool True)] ''id'' = Some (JNum (Finite 1)) \<and>
   connectAsync sim_store (db (fresh (sim_fuse 2))) = (None, sim_fuse 2) \<and>
   exec sim_store ''videos'' (Update (JObj [(''id'', JNum (Finite 1))]) (elem 1)) (sim_fuse 2) = (Fulfil (JArr []), sim_fuse 1) \<and>
   updateMany sim_store ''videos'' [elem 1, elem 2] (fresh (sim_fuse 2)) =
     (Resolved (JArr [elem 1, elem 2]),
      \<lparr>db = sim_fuse 0,
        trace = [Connected, Call ''videos'' (Update (JObj [(''id'', JNum (Finite 1))]) (elem 1)), Closed,
                 Connected,
                 Call ''videos'' (Update (JObj [(''id'', JNum (Finite 2))]) (elem 2)),
                 Closed],
        alarms = []\<rparr>) \<and>
   connectAsync sim_store (db (fresh (sim_fuse 0))) = (None, sim_fuse 0) \<and>
   exec sim_store ''videos'' (Update (JObj [(''id'', JNum (Finite 1))]) (elem 1)) (sim_fuse 0)
     = (Reject (Error ''simulated failure''), sim_fuse 0) \<and>
   updateMany sim_store ''videos'' [elem 1, elem 2] (fresh (sim_fuse 0)) =
     (Rejected (Error ''simulated failure''),
      \<lparr>db = sim_fuse 0, trace = [Connected, Call ''videos'' (Update (JObj [(''id'', JNum (Finite 1))]) (elem 1)), Closed], alarms = []\<rparr>) \<and>
   exec sim_store [] (Update (JObj [(''id'', JNum (Finite 1))]) (elem 1)) (sim_fuse 2)
     = (SyncThrow (Error ''collection names cannot be empty''), sim_fuse 2) \<and>
   updateMany sim_store [] [elem 1, elem 2] (fresh (sim_fuse 2)) =
     (Rejected (Error ''collection names cannot be empty''),
      \<lparr>db = sim_fuse 2, trace = [Connected, Closed], alarms = []\<rparr>) \<and>
   connectAsync sim_store (db (fresh sim_offline))
     = (Some (Error ''connect ECONNREFUSED''), sim_offline) \<and>
   updateMany sim_store ''videos'' [elem 1, elem 2] (fresh sim_offline) =
     (Rejected (Error ''connect ECONNREFUSED''),
      \<lparr>db = sim_offline,
        trace = [ConnectFailed (Error ''connect ECONNREFUSED'')], alarms = []\<rparr>) \<and>
   trace \<lparr>db = sim_fuse 0,
          trace = [Connected, Call ''videos'' (Update (JObj [(''id'', JNum (Finite 1))]) (elem 1)), Closed,
                   Connected,
                   Call ''videos'' (Update (JObj [(''id'', JNum (Finite 2))]) (elem 2)),
                   Closed],
          alarms = []\<rparr> =
     trace (fresh (sim_fuse 2)) @ concat (map (update_scope ''videos'') [elem 1, elem 2]) \<and>
   list_all has_id ([elem 1] @ elem 2 # [elem 3]) \<and>
   updateMany sim_store ''videos'' [elem 1] (fresh (sim_fuse 1)) =
     (Resolved (JArr [elem 1]),
      \<lparr>db = sim_fuse 0, trace = [Connected, Call ''videos'' (Update (JObj [(''id'', JNum (Finite 1))]) (elem 1)), Closed], alarms = []\<rparr>) \<and>
   updateMany sim_store ''videos'' [elem 2]
       \<lparr>db = sim_fuse 0, trace = [Connected, Call ''videos'' (Update (JObj [(''id'', JNum (Finite 1))]) (elem 1)), Closed], alarms = []\<rparr> =
     (Rejected (Error ''simulated failure''),
      \<lparr>db = sim_fuse 0,
        trace = [Connected, Call ''videos'' (Update (JObj [(''id'', JNum (Finite 1))]) (elem 1)), Closed,
                 Connected,
                 Call ''videos'' (Update (JObj [(''id'', JNum (Finite 2))]) (elem 2)),
                 Closed],
        alarms = []\<rparr>) \<and>
   updateMany sim_store ''videos'' ([elem 1] @ elem 2 # [elem 3]) (fresh (sim_fuse 1)) =
     (Rejected (Error ''simulated failure''),
      \<lparr>db = sim_fuse 0,
        trace = [Connected, Call ''videos'' (Update (JObj [(''id'', JNum (Finite 1))]) (elem 1)), Closed,
                 Connected,
                 Call ''videos'' (Update (JObj [(''id'', JNum (Finite 2))]) (elem 2)),
                 Closed],
        alarms = []\<rparr>)"
proof -
  note t = updateMany_checks_then_updates_in_order
  have e1: "elem 1 = JObj [(''id'', JNum (Finite 1)), (''seen'', JBool True)]" by (simp add: elem_def)
  have bad: "\<not> list_all has_id [elem 1, JObj [(''seen'', JBool True)], elem 3]"
    by (simp add: has_id_def elem_def)
  have ok3: "list_all has_id [elem 1, elem 2, elem 3]"
    by (simp add: has_id_def elem_def)
  have ok2: "list_all has_id [elem 1, elem 2]"
    by (simp add: has_id_def elem_def)
  have ok2': "list_all has_id (JObj [(''id'', JNum (Finite 1)), (''seen'', JBool True)] # [elem 2])"
    using ok2 by (simp add: elem_def)
  have ok3': "list_all has_id ([elem 1] @ elem 2 # [elem 3])"
    using ok3 by simp
  have m: "map_of [(''id'', JNum (Finite 1)), (''seen'', JBool True)] ''id'' = Some (JNum (Finite 1))" by simp
  have c2: "connectAsync sim_store (db (fresh (sim_fuse 2))) = (None, sim_fuse 2)"
    by (simp add: sim_connects sim_fuse_def)
  have c0: "connectAsync sim_store (db (fresh (sim_fuse 0))) = (None, sim_fuse 0)"
    by (simp add: sim_connects sim_fuse_def)
  have cx: "connectAsync sim_store (db (fresh sim_offline))
     = (Some (Error ''connect ECONNREFUSED''), sim_offline)"
    by (simp add: sim_refuses sim_offline_def)
  have x2: "exec sim_store ''videos'' (Update (JObj [(''id'', JNum (Finite 1))]) (elem 1)) (sim_fuse 2) = (Fulfil (JArr []), sim_fuse 1)"
    by (simp add: sim_store_def sim_exec_def sim_fuse_def numeral_2_eq_2)
  have x0: "exec sim_store ''videos'' (Update (JObj [(''id'', JNum (Finite 1))]) (elem 1)) (sim_fuse 0)
     = (Reject (Error ''simulated failure''), sim_fuse 0)"
    by (simp add: sim_store_def sim_exec_def sim_fuse_def)
  have xt: "exec sim_store [] (Update (JObj [(''id'', JNum (Finite 1))]) (elem 1)) (sim_fuse 2)
     = (SyncThrow (Error ''collection names cannot be empty''), sim_fuse 2)"
    by (simp add: sim_unnamed_exec)
  have p1: "\<exists>err. updateMany sim_store ''videos''
        [elem 1, JObj [(''seen'', JBool True)], elem 3] (fresh (sim_fuse 2))
        = (Throws err, fresh (sim_fuse 2))"
    using t [where D = sim_store and cName = "''videos''" and w = "fresh (sim_fuse 2)"
               and elist = "[elem 1, JObj [(''seen'', JBool True)], elem 3]",
               THEN conjunct1] bad
    by simp
  have p2: "fst (updateMany sim_store ''videos'' [elem 1, elem 2, elem 3]
        (fresh (sim_fuse 1))) \<noteq> Throws (Error ''simulated failure'')"
    using t [where D = sim_store and cName = "''videos''" and w = "fresh (sim_fuse 1)"
               and elist = "[elem 1, elem 2, elem 3]" and err = "Error ''simulated failure''",
               THEN conjunct2, THEN conjunct1] ok3
    by simp
  have p3: "updateMany sim_store ''videos'' [] (fresh (sim_fuse 1))
     = (Resolved (JArr []), fresh (sim_fuse 1))"
    by (rule t [THEN conjunct2, THEN conjunct2, THEN conjunct1])
  have inner: "updateMany sim_store ''videos'' [elem 2]
       ((fresh (sim_fuse 2))
          \<lparr>db := close sim_store (sim_fuse 1),
            trace := trace (fresh (sim_fuse 2)) @
              [Connected,
               Call ''videos'' (Update (JObj [(''id'', JNum (Finite 1))]) (JObj [(''id'', JNum (Finite 1)), (''seen'', JBool True)])),
               Closed]\<rparr>) =
     (Resolved (JArr [elem 2]),
      \<lparr>db = sim_fuse 0,
        trace = [Connected, Call ''videos'' (Update (JObj [(''id'', JNum (Finite 1))]) (elem 1)), Closed,
                 Connected,
                 Call ''videos'' (Update (JObj [(''id'', JNum (Finite 2))]) (elem 2)),
                 Closed],
        alarms = []\<rparr>)"
    by (simp add: sim_run)
  have p4: "updateMany sim_store ''videos'' [elem 1, elem 2] (fresh (sim_fuse 2)) =
     (Resolved (JArr [elem 1, elem 2]),
      \<lparr>db = sim_fuse 0,
        trace = [Connected, Call ''videos'' (Update (JObj [(''id'', JNum (Finite 1))]) (elem 1)), Closed,
                 Connected,
                 Call ''videos'' (Update (JObj [(''id'', JNum (Finite 2))]) (elem 2)),
                 Closed],
        alarms = []\<rparr>)"
    using t [where D = sim_store and cName = "''videos''" and w = "fresh (sim_fuse 2)"
               and kvs = "[(''id'', JNum (Finite 1)), (''seen'', JBool True)]" and es = "[elem 2]" and i = "JNum (Finite 1)"
               and ?s1.0 = "sim_fuse 2" and ?s2.0 = "sim_fuse 1" and v = "JArr []",
               THEN conjunct2, THEN conjunct2, THEN conjunct2, THEN conjunct1]
      ok2' m c2 x2 [unfolded e1] inner
    by (simp add: e1)
  have p5: "updateMany sim_store ''videos'' [elem 1, elem 2] (fresh (sim_fuse 0)) =
     (Rejected (Error ''simulated failure''),
      \<lparr>db = sim_fuse 0, trace = [Connected, Call ''videos'' (Update (JObj [(''id'', JNum (Finite 1))]) (elem 1)), Closed], alarms = []\<rparr>)"
    using t [where D = sim_store and cName = "''videos''" and w = "fresh (sim_fuse 0)"
               and kvs = "[(''id'', JNum (Finite 1)), (''seen'', JBool True)]" and es = "[elem 2]" and i = "JNum (Finite 1)"
               and ?s1.0 = "sim_fuse 0" and ?s2.0 = "sim_fuse 0"
               and err = "Error ''simulated failure''",
               THEN conjunct2, THEN conjunct2, THEN conjunct2, THEN conjunct2, THEN conjunct1]
      ok2' m c0 x0 [unfolded e1]
    by (simp add: e1 fresh_def sim_close)
  have p6: "updateMany sim_store [] [elem 1, elem 2] (fresh (sim_fuse 2)) =
     (Rejected (Error ''collection names cannot be empty''),
      \<lparr>db = sim_fuse 2, trace = [Connected, Closed], alarms = []\<rparr>)"
    using t [where D = sim_store and cName = "[]" and w = "fresh (sim_fuse 2)"
               and kvs = "[(''id'', JNum (Finite 1)), (''seen'', JBool True)]" and es = "[elem 2]" and i = "JNum (Finite 1)"
               and ?s1.0 = "sim_fuse 2" and ?s2.0 = "sim_fuse 2"
               and err = "Error ''collection names cannot be empty''",
               THEN conjunct2, THEN conjunct2, THEN conjunct2, THEN conjunct2, THEN conjunct2,
               THEN conjunct1]
      ok2' m c2 xt [unfolded e1]
    by (simp add: e1 fresh_def sim_close)
  have p7: "updateMany sim_store ''videos'' [elem 1, elem 2] (fresh sim_offline) =
     (Rejected (Error ''connect ECONNREFUSED''),
      \<lparr>db = sim_offline,
        trace = [ConnectFailed (Error ''connect ECONNREFUSED'')], alarms = []\<rparr>)"
    using t [where D = sim_store and cName = "''videos''" and w = "fresh sim_offline"
               and e = "elem 1" and es = "[elem 2]" and ?s1.0 = sim_offline
               and err = "Error ''connect ECONNREFUSED''",
               THEN conjunct2, THEN conjunct2, THEN conjunct2, THEN conjunct2, THEN conjunct2,
               THEN conjunct2, THEN conjunct1]
      ok2 cx
    by (simp add: fresh_def)
  have p8: "trace \<lparr>db = sim_fuse 0,
          trace = [Connected, Call ''videos'' (Update (JObj [(''id'', JNum (Finite 1))]) (elem 1)), Closed,
                   Connected,
                   Call ''videos'' (Update (JObj [(''id'', JNum (Finite 2))]) (elem 2)),
                   Closed],
          alarms = []\<rparr> =
     trace (fresh (sim_fuse 2)) @ concat (map (update_scope ''videos'') [elem 1, elem 2])"
    using t [where D = sim_store and cName = "''videos''" and w = "fresh (sim_fuse 2)"
               and elist = "[elem 1, elem 2]" and v = "JArr [elem 1, elem 2]"
               and w' = "\<lparr>db = sim_fuse 0,
                  trace = [Connected, Call ''videos'' (Update (JObj [(''id'', JNum (Finite 1))]) (elem 1)), Closed,
                           Connected,
                           Call ''videos'' (Update (JObj [(''id'', JNum (Finite 2))]) (elem 2)),
                           Closed],
                  alarms = []\<rparr>",
               THEN conjunct2, THEN conjunct2, THEN conjunct2, THEN conjunct2, THEN conjunct2,
               THEN conjunct2, THEN conjunct2, THEN conjunct1]
      p4
    by blast
  have one: "updateMany sim_store ''videos'' [elem 1] (fresh (sim_fuse 1)) =
     (Resolved (JArr [elem 1]),
      \<lparr>db = sim_fuse 0, trace = [Connected, Call ''videos'' (Update (JObj [(''id'', JNum (Finite 1))]) (elem 1)), Closed], alarms = []\<rparr>)"
    by (simp add: sim_run)
  have fails: "updateMany sim_store ''videos'' [elem 2]
       \<lparr>db = sim_fuse 0, trace = [Connected, Call ''videos'' (Update (JObj [(''id'', JNum (Finite 1))]) (elem 1)), Closed], alarms = []\<rparr> =
     (Rejected (Error ''simulated failure''),
      \<lparr>db = sim_fuse 0,
        trace = [Connected, Call ''videos'' (Update (JObj [(''id'', JNum (Finite 1))]) (elem 1)), Closed,
                 Connected,
                 Call ''videos'' (Update (JObj [(''id'', JNum (Finite 2))]) (elem 2)),
                 Closed],
        alarms = []\<rparr>)"
    by (simp add: sim_run)
  have p9: "updateMany sim_store ''videos'' ([elem 1] @ elem 2 # [elem 3]) (fresh (sim_fuse 1)) =
     (Rejected (Error ''simulated failure''),
      \<lparr>db = sim_fuse 0,
        trace = [Connected, Call ''videos'' (Update (JObj [(''id'', JNum (Finite 1))]) (elem 1)), Closed,
                 Connected,
                 Call ''videos'' (Update (JObj [(''id'', JNum (Finite 2))]) (elem 2)),
                 Closed],
        alarms = []\<rparr>)"
    using t [where D = sim_store and cName = "''videos''" and w = "fresh (sim_fuse 1)"
               and pre = "[elem 1]" and e = "elem 2" and post = "[elem 3]"
               and err = "Error ''simulated failure''" and ?v1.0 = "JArr [elem 1]"
               and ?w1.0 = "\<lparr>db = sim_fuse 0, trace = [Connected, Call ''videos'' (Update (JObj [(''id'', JNum (Finite 1))]) (elem 1)), Closed],
                              alarms = []\<rparr>"
               and ?w2.0 = "\<lparr>db = sim_fuse 0,
                  trace = [Connected, Call ''videos'' (Update (JObj [(''id'', JNum (Finite 1))]) (elem 1)), Closed,
                           Connected,
                           Call ''videos'' (Update (JObj [(''id'', JNum (Finite 2))]) (elem 2)),
                           Closed],
                  alarms = []\<rparr>",
               THEN conjunct2, THEN conjunct2, THEN conjunct2, THEN conjunct2, THEN conjunct2,
               THEN conjunct2, THEN conjunct2, THEN conjunct2]
      ok3' one fails
    by blast
  show ?thesis
    by (intro conjI) (fact bad p1 ok3 p2 p3 ok2 m c2 x2 p4 c0 x0 p5 xt p6 cx p7 p8 ok3' one fails p9)+
qed

section \<open>Connection handles\<close>

lemma released_once_append:
  "released_once xs \<Longrightarrow> released_once ys \<Longrightarrow> released_once (xs @ ys)"
  by (induction xs rule: released_once.induct) auto

lemma released_once_balanced: "released_once es \<Longrightarrow> releases es = acquisitions es"
  by (induction es rule: released_once.induct) (auto simp: releases_def acquisitions_def)

lemma settled_refl: "settled w w"
  by (auto simp: settled_def acquisitions_def releases_def)

lemma settled_trans: "settled w w1 \<Longrightarrow> settled w1 w2 \<Longrightarrow> settled w w2"
  unfolding settled_def
proof (elim exE conjE)
  fix es1 es2
  assume a: "trace w1 = trace w @ es1" "released_once es1"
    "acquired (db w1) = acquired (db w) + acquisitions es1"
    "released (db w1) = released (db w) + releases es1"
    and b: "trace w2 = trace w1 @ es2" "released_once es2"
    "acquired (db w2) = acquired (db w1) + acquisitions es2"
    "released (db w2) = released (db w1) + releases es2"
  have "trace w2 = trace w @ (es1 @ es2)" using a b by simp
  moreover have "released_once (es1 @ es2)" using a b by (simp add: released_once_append)
  moreover have "acquired (db w2) = acquired (db w) + acquisitions (es1 @ es2)"
    using a b by (simp add: acquisitions_def)
  moreover have "released (db w2) = released (db w) + releases (es1 @ es2)"
    using a b by (simp add: releases_def)
  ultimately show "\<exists>es. trace w2 = trace w @ es \<and> released_once es \<and>
      acquired (db w2) = acquired (db w) + acquisitions es \<and>
      released (db w2) = released (db w) + releases es"
    by blast
qed

lemma settled_alarm: "settled w w' \<Longrightarrow> settled w (reportAlarm a w')"
  by (simp add: settled_def reportAlarm_def)

text \<open>
  A callback that leaves the counters alone and sends at most one request runs, under
  \<open>Promise.using\<close>, in one scope that the driver sees opened and closed.
\<close>

lemma metered_using:
  assumes "\<And>w1. acquired (db (snd (f w1))) = acquired (db w1) \<and>
                 released (db (snd (f w1))) = released (db w1) \<and>
                 (trace (snd (f w1)) = trace w1 \<or>
                  (\<exists>c r. trace (snd (f w1)) = trace w1 @ [Call c r]))"
  shows "settled w (snd (Promise_using (metered D) f w))"
proof (cases "connectAsync D (inner (db w))")
  case (Pair x s)
  show ?thesis
  proof (cases x)
    case (Some e)
    with Pair show ?thesis
      by (auto simp: settled_def Promise_using_def dbConnection_def metered_def
            acquisitions_def releases_def)
  next
    case None
    define w1 where
      "w1 = w\<lparr>db := (db w)\<lparr>inner := s, acquired := Suc (acquired (db w))\<rparr>,
              trace := trace w @ [Connected]\<rparr>"
    obtain r w2 where f: "f w1 = (r, w2)" by (cases "f w1")
    from assms[of w1] f have c: "acquired (db w2) = Suc (acquired (db w))"
      "released (db w2) = released (db w)"
      and t: "trace w2 = trace w @ [Connected] \<or>
              (\<exists>c r. trace w2 = trace w @ [Connected, Call c r])"
      by (auto simp: w1_def)
    have run: "snd (Promise_using (metered D) f w) = dispose (metered D) w2"
      using Pair None f
      by (cases r)
         (simp_all add: Promise_using_def dbConnection_def metered_def w1_def [symmetric])
    from t show ?thesis
    proof
      assume "trace w2 = trace w @ [Connected]"
      with c have "trace (dispose (metered D) w2) = trace w @ [Connected, Closed] \<and>
          released_once [Connected, Closed] \<and>
          acquired (db (dispose (metered D) w2))
            = acquired (db w) + acquisitions [Connected, Closed] \<and>
          released (db (dispose (metered D) w2))
            = released (db w) + releases [Connected, Closed]"
        by (simp add: dispose_def metered_def acquisitions_def releases_def)
      then show ?thesis unfolding settled_def run by blast
    next
      assume "\<exists>c r. trace w2 = trace w @ [Connected, Call c r]"
      then obtain c' r' where "trace w2 = trace w @ [Connected, Call c' r']" by blast
      with c have "trace (dispose (metered D) w2) = trace w @ [Connected, Call c' r', Closed] \<and>
          released_once [Connected, Call c' r', Closed] \<and>
          acquired (db (dispose (metered D) w2))
            = acquired (db w) + acquisitions [Connected, Call c' r', Closed] \<and>
          released (db (dispose (metered D) w2))
            = released (db w) + releases [Connected, Call c' r', Closed]"
        by (simp add: dispose_def metered_def acquisitions_def releases_def)
      then show ?thesis unfolding settled_def run by blast
    qed
  qed
qed

lemma driver_call_quiet:
  "acquired (db (snd (driver_call (metered D) c r w))) = acquired (db w) \<and>
   released (db (snd (driver_call (metered D) c r w))) = released (db w) \<and>
   (trace (snd (driver_call (metered D) c r w)) = trace w \<or>
    trace (snd (driver_call (metered D) c r w)) = trace w @ [Call c r])"
proof -
  obtain rep s where x: "exec D c r (inner (db w)) = (rep, s)"
    by (cases "exec D c r (inner (db w))")
  then show ?thesis
    by (cases rep) (simp_all add: driver_call_def metered_def)
qed

lemma plain_call_quiet:
  "acquired (db (snd (plain_call (metered D) c r w))) = acquired (db w) \<and>
   released (db (snd (plain_call (metered D) c r w))) = released (db w) \<and>
   (trace (snd (plain_call (metered D) c r w)) = trace w \<or>
    (\<exists>c' r'. trace (snd (plain_call (metered D) c r w)) = trace w @ [Call c' r']))"
  using driver_call_quiet [of D c r w]
  by (auto simp: plain_call_def split: prod.splits reply.splits)

lemma caught_call_quiet:
  "acquired (db (snd (caught_call (metered D) c r n ctx w))) = acquired (db w) \<and>
   released (db (snd (caught_call (metered D) c r n ctx w))) = released (db w) \<and>
   (trace (snd (caught_call (metered D) c r n ctx w)) = trace w \<or>
    (\<exists>c' r'. trace (snd (caught_call (metered D) c r n ctx w)) = trace w @ [Call c' r']))"
  using driver_call_quiet [of D c r w]
  by (auto simp: caught_call_def reportAlarm_def split: prod.splits reply.splits)

lemma plain_settled: "settled w (snd (Promise_using (metered D) (plain_call (metered D) c r) w))"
  by (rule metered_using) (rule plain_call_quiet)

lemma caught_settled:
  "settled w (snd (Promise_using (metered D) (caught_call (metered D) c r n ctx) w))"
  by (rule metered_using) (rule caught_call_quiet)

lemma snd_Promise_return: "snd (Promise_return x r) = snd r"
  by (simp add: Promise_return_def split: prod.splits outcome.splits)

lemma update_element_settled: "settled w (snd (update_element (metered D) c e w))"
  unfolding update_element_def
proof (rule metered_using)
  fix w1
  show "acquired (db (snd (case get_id e of Inl err \<Rightarrow> (Inl err, w1)
            | Inr i \<Rightarrow> plain_call (metered D) c (Update (JObj [(''id'', i)]) e) w1)))
          = acquired (db w1) \<and>
        released (db (snd (case get_id e of Inl err \<Rightarrow> (Inl err, w1)
            | Inr i \<Rightarrow> plain_call (metered D) c (Update (JObj [(''id'', i)]) e) w1)))
          = released (db w1) \<and>
        (trace (snd (case get_id e of Inl err \<Rightarrow> (Inl err, w1)
            | Inr i \<Rightarrow> plain_call (metered D) c (Update (JObj [(''id'', i)]) e) w1))
          = trace w1 \<or>
         (\<exists>c' r. trace (snd (case get_id e of Inl err \<Rightarrow> (Inl err, w1)
            | Inr i \<Rightarrow> plain_call (metered D) c (Update (JObj [(''id'', i)]) e) w1))
          = trace w1 @ [Call c' r]))"
    using plain_call_quiet by (cases "get_id e") auto
qed

lemma each_settled: "settled w (snd (Promise_each (update_element (metered D) c) xs w))"
proof (induction xs arbitrary: w)
  case Nil
  show ?case by (simp add: settled_refl)
next
  case (Cons x xs)
  obtain out w1 where step: "update_element (metered D) c x w = (out, w1)"
    by (cases "update_element (metered D) c x w")
  with update_element_settled [of w D c x] have s1: "settled w w1" by simp
  show ?case
  proof (cases out)
    case (Resolved v)
    with step s1 Cons.IH [of w1] show ?thesis by (auto intro: settled_trans)
  next
    case (Rejected err)
    with step s1 show ?thesis by simp
  next
    case (Throws err)
    with step s1 show ?thesis by simp
  qed
qed

lemma readLimit_settled: "settled w (snd (readLimit (metered D) c sel so lim past w))"
proof -
  define q where "q = FindLimited sel so (if lodash_isNaN past then JNum (Finite 0) else past) lim"
  obtain out w' where u: "Promise_using (metered D) (plain_call (metered D) c q) w = (out, w')"
    by (cases "Promise_using (metered D) (plain_call (metered D) c q) w")
  with plain_settled [of w D c q] have "settled w w'" by simp
  with u show ?thesis
    by (cases out) (simp_all add: readLimit_def Let_def q_def [symmetric] settled_alarm)
qed

lemma updateMany_settled: "settled w (snd (updateMany (metered D) c es w))"
proof (cases "check_ids es")
  case None
  with each_settled [of w D c es] show ?thesis
    by (auto simp: updateMany_def split: prod.splits option.splits)
next
  case (Some err)
  then show ?thesis by (simp add: updateMany_def settled_refl)
qed

lemma invoke_settled: "settled w (snd (invoke (metered D) c w))"
proof (cases c)
  case (Op_readLimit c sel so lim past)
  then show ?thesis by (simp add: readLimit_settled)
next
  case (Op_countByDay c tv f a)
  then show ?thesis by (simp add: countByDay_def caught_settled settled_refl)
next
  case (Op_countByObject c i)
  then show ?thesis by (simp add: countByObject_def Let_def caught_settled)
next
  case (Op_remove c sel)
  then show ?thesis by (simp add: remove_def plain_settled settled_refl)
next
  case (Op_updateMany c es)
  then show ?thesis by (simp add: updateMany_settled)
next
  case (Op_lookup c q s)
  then show ?thesis by (simp add: lookup_def caught_settled)
qed (simp_all add: updateOne_def upsertOne_def writeOne_def writeMany_def countByMatch_def
       read_def Let_def aggregate_def save_def createIndex_def distinct_values_def
       snd_Promise_return plain_settled)

lemma invoke_all_settled: "settled w (invoke_all (metered D) cs w)"
proof (induction cs arbitrary: w)
  case Nil
  show ?case by (simp add: settled_refl)
next
  case (Cons c cs)
  from invoke_settled [of w D c] Cons.IH [of "snd (invoke (metered D) c w)"]
  show ?case by (auto intro: settled_trans)
qed

text \<open>
  Claim C2. On any driver, instrumented with a counter of the handles its
  \<open>connectAsync\<close> gives out and a counter of its \<open>close\<close> calls, whatever public operations
  are called one after the other, with whatever arguments and from whatever state: the
  events the calls add to the trace are connection scopes, each acquired handle closed
  once, after at most one request and before the next connection is asked for; the
  driver's two counters grow by the acquisitions and by the releases among those events;
  and these two numbers are equal. With one call this is the statement for a single
  operation, on each of its outcomes.
\<close>

theorem every_handle_released_once:
  "\<exists>es. trace (invoke_all (metered D) cs w) = trace w @ es \<and> released_once es \<and>
        acquired (db (invoke_all (metered D) cs w)) = acquired (db w) + acquisitions es \<and>
        released (db (invoke_all (metered D) cs w)) = released (db w) + releases es \<and>
        releases es = acquisitions es"
  using invoke_all_settled [of w D cs] released_once_balanced
  unfolding settled_def by blast

lemmas metered_run = invoke.simps countByMatch_def countByObject_def remove_def
  read_def save_def updateMany_def update_element_def Promise_using_def dbConnection_def
  plain_call_def caught_call_def driver_call_def dispose_def reportAlarm_def metered_def
  sim_store_def sim_exec_def fresh_def sim_fuse_def sim_offline_def elem_def
  lodash_isUndefined_def lodash_size_def lodash_keys_def Let_def

theorem every_handle_released_once_witness:
  "(\<exists>es. trace (invoke_all (metered sim_store)
              [Op_countByMatch ''videos'' (JObj []), Op_countByObject ''videos'' JUndefined,
               Op_remove ''videos'' (JObj []), Op_read [] (JObj []) JUndefined,
               Op_updateMany ''videos'' [elem 1, elem 2]]
              (fresh \<lparr>inner = sim_fuse 1, acquired = 0, released = 0\<rparr>))
          = trace (fresh \<lparr>inner = sim_fuse 1, acquired = 0, released = 0\<rparr>) @ es \<and>
        released_once es \<and>
        acquired (db (invoke_all (metered sim_store)
              [Op_countByMatch ''videos'' (JObj []), Op_countByObject ''videos'' JUndefined,
               Op_remove ''videos'' (JObj []), Op_read [] (JObj []) JUndefined,
               Op_updateMany ''videos'' [elem 1, elem 2]]
              (fresh \<lparr>inner = sim_fuse 1, acquired = 0, released = 0\<rparr>)))
          = acquired (db (fresh \<lparr>inner = sim_fuse 1, acquired = 0, released = 0\<rparr>))
            + acquisitions es \<and>
        released (db (invoke_all (metered sim_store)
              [Op_countByMatch ''videos'' (JObj []), Op_countByObject ''videos'' JUndefined,
               Op_remove ''videos'' (JObj []), Op_read [] (JObj []) JUndefined,
               Op_updateMany ''videos'' [elem 1, elem 2]]
              (fresh \<lparr>inner = sim_fuse 1, acquired = 0, released = 0\<rparr>)))
          = released (db (fresh \<lparr>inner = sim_fuse 1, acquired = 0, released = 0\<rparr>))
            + releases es \<and>
        releases es = acquisitions es) \<and>
   invoke_all (metered sim_store)
     [Op_countByMatch ''videos'' (JObj []), Op_countByObject ''videos'' JUndefined,
      Op_remove ''videos'' (JObj []), Op_read [] (JObj []) JUndefined,
      Op_updateMany ''videos'' [elem 1, elem 2]]
     (fresh \<lparr>inner = sim_fuse 1, acquired = 0, released = 0\<rparr>)
   = \<lparr>db = \<lparr>inner = sim_fuse 0, acquired = 4, released = 4\<rparr>,
      trace = [Connected, Call ''videos'' (Count (JObj [])), Closed,
               Connected, Call ''videos'' (Aggregate (groupSortQ (JObj []))), Closed,
               Connected, Closed,
               Connected,
               Call ''videos'' (Update (JObj [(''id'', JNum (Finite 1))]) (elem 1)),
               Closed],
      alarms = [\<lparr>caller = ''countByObject'', what = Error ''simulated failure'',
                 info = JObj [(''cName'', JStr ''videos''), (''idobj'', JObj [])]\<rparr>]\<rparr> \<and>
   invoke_all (metered sim_store)
     [Op_countByMatch ''videos'' (JObj []), Op_save ''videos'' (elem 1)]
     (fresh \<lparr>inner = sim_offline, acquired = 0, released = 0\<rparr>)
   = \<lparr>db = \<lparr>inner = sim_offline, acquired = 0, released = 0\<rparr>,
      trace = [ConnectFailed (Error ''connect ECONNREFUSED''),
               ConnectFailed (Error ''connect ECONNREFUSED'')],
      alarms = []\<rparr>"
proof -
  note a = every_handle_released_once
    [of sim_store
        "[Op_countByMatch ''videos'' (JObj []), Op_countByObject ''videos'' JUndefined,
          Op_remove ''videos'' (JObj []), Op_read [] (JObj []) JUndefined,
          Op_updateMany ''videos'' [elem 1, elem 2]]"
        "fresh \<lparr>inner = sim_fuse 1, acquired = 0, released = 0\<rparr>"]
  have s1: "snd (invoke (metered sim_store) (Op_countByMatch ''videos'' (JObj []))
     (fresh \<lparr>inner = sim_fuse 1, acquired = 0, released = 0\<rparr>))
   = \<lparr>db = \<lparr>inner = sim_fuse 0, acquired = 1, released = 1\<rparr>,
      trace = [Connected, Call ''videos'' (Count (JObj [])), Closed],
      alarms = []\<rparr>"
    by (simp add: metered_run)
  have s2: "snd (invoke (metered sim_store) (Op_countByObject ''videos'' JUndefined)
      \<lparr>db = \<lparr>inner = sim_fuse 0, acquired = 1, released = 1\<rparr>,
      trace = [Connected, Call ''videos'' (Count (JObj [])), Closed],
      alarms = []\<rparr>)
   = \<lparr>db = \<lparr>inner = sim_fuse 0, acquired = 2, released = 2\<rparr>,
      trace = [Connected, Call ''videos'' (Count (JObj [])), Closed,
               Connected, Call ''videos'' (Aggregate (groupSortQ (JObj []))), Closed],
      alarms = [\<lparr>caller = ''countByObject'', what = Error ''simulated failure'',
                 info = JObj [(''cName'', JStr ''videos''), (''idobj'', JObj [])]\<rparr>]\<rparr>"
    by (simp add: metered_run)
  have s3: "snd (invoke (metered sim_store) (Op_remove ''videos'' (JObj []))
      \<lparr>db = \<lparr>inner = sim_fuse 0, acquired = 2, released = 2\<rparr>,
      trace = [Connected, Call ''videos'' (Count (JObj [])), Closed,
               Connected, Call ''videos'' (Aggregate (groupSortQ (JObj []))), Closed],
      alarms = [\<lparr>caller = ''countByObject'', what = Error ''simulated failure'',
                 info = JObj [(''cName'', JStr ''videos''), (''idobj'', JObj [])]\<rparr>]\<rparr>)
   = \<lparr>db = \<lparr>inner = sim_fuse 0, acquired = 2, released = 2\<rparr>,
      trace = [Connected, Call ''videos'' (Count (JObj [])), Closed,
               Connected, Call ''videos'' (Aggregate (groupSortQ (JObj []))), Closed],
      alarms = [\<lparr>caller = ''countByObject'', what = Error ''simulated failure'',
                 info = JObj [(''cName'', JStr ''videos''), (''idobj'', JObj [])]\<rparr>]\<rparr>"
    by (simp add: metered_run lodash_size_def lodash_keys_def)
  have s4: "snd (invoke (metered sim_store) (Op_read [] (JObj []) JUndefined)
      \<lparr>db = \<lparr>inner = sim_fuse 0, acquired = 2, released = 2\<rparr>,
      trace = [Connected, Call ''videos'' (Count (JObj [])), Closed,
               Connected, Call ''videos'' (Aggregate (groupSortQ (JObj []))), Closed],
      alarms = [\<lparr>caller = ''countByObject'', what = Error ''simulated failure'',
                 info = JObj [(''cName'', JStr ''videos''), (''idobj'', JObj [])]\<rparr>]\<rparr>)
   = \<lparr>db = \<lparr>inner = sim_fuse 0, acquired = 3, released = 3\<rparr>,
      trace = [Connected, Call ''videos'' (Count (JObj [])), Closed,
               Connected, Call ''videos'' (Aggregate (groupSortQ (JObj []))), Closed,
               Connected, Closed],
      alarms = [\<lparr>caller = ''countByObject'', what = Error ''simulated failure'',
                 info = JObj [(''cName'', JStr ''videos''), (''idobj'', JObj [])]\<rparr>]\<rparr>"
    by (simp add: metered_run)
  have s5: "snd (invoke (metered sim_store) (Op_updateMany ''videos'' [elem 1, elem 2])
      \<lparr>db = \<lparr>inner = sim_fuse 0, acquired = 3, released = 3\<rparr>,
      trace = [Connected, Call ''videos'' (Count (JObj [])), Closed,
               Connected, Call ''videos'' (Aggregate (groupSortQ (JObj []))), Closed,
               Connected, Closed],
      alarms = [\<lparr>caller = ''countByObject'', what = Error ''simulated failure'',
                 info = JObj [(''cName'', JStr ''videos''), (''idobj'', JObj [])]\<rparr>]\<rparr>)
   = \<lparr>db = \<lparr>inner = sim_fuse 0, acquired = 4, released = 4\<rparr>,
      trace = [Connected, Call ''videos'' (Count (JObj [])), Closed,
               Connected, Call ''videos'' (Aggregate (groupSortQ (JObj []))), Closed,
               Connected, Closed,
               Connected,
               Call ''videos'' (Update (JObj [(''id'', JNum (Finite 1))]) (elem 1)),
               Closed],
      alarms = [\<lparr>caller = ''countByObject'', what = Error ''simulated failure'',
                 info = JObj [(''cName'', JStr ''videos''), (''idobj'', JObj [])]\<rparr>]\<rparr>"
    by (simp add: metered_run)
  have b: "invoke_all (metered sim_store)
     [Op_countByMatch ''videos'' (JObj []), Op_countByObject ''videos'' JUndefined,
      Op_remove ''videos'' (JObj []), Op_read [] (JObj []) JUndefined,
      Op_updateMany ''videos'' [elem 1, elem 2]]
     (fresh \<lparr>inner = sim_fuse 1, acquired = 0, released = 0\<rparr>)
   = \<lparr>db = \<lparr>inner = sim_fuse 0, acquired = 4, released = 4\<rparr>,
      trace = [Connected, Call ''videos'' (Count (JObj [])), Closed,
               Connected, Call ''videos'' (Aggregate (groupSortQ (JObj []))), Closed,
               Connected, Closed,
               Connected,
               Call ''videos'' (Update (JObj [(''id'', JNum (Finite 1))]) (elem 1)),
               Closed],
      alarms = [\<lparr>caller = ''countByObject'', what = Error ''simulated failure'',
                 info = JObj [(''cName'', JStr ''videos''), (''idobj'', JObj [])]\<rparr>]\<rparr>"
    by (simp only: invoke_all.simps s1 s2 s3 s4 s5)
  have c: "invoke_all (metered sim_store)
     [Op_countByMatch ''videos'' (JObj []), Op_save ''videos'' (elem 1)]
     (fresh \<lparr>inner = sim_offline, acquired = 0, released = 0\<rparr>)
   = \<lparr>db = \<lparr>inner = sim_offline, acquired = 0, released = 0\<rparr>,
      trace = [ConnectFailed (Error ''connect ECONNREFUSED''),
               ConnectFailed (Error ''connect ECONNREFUSED'')],
      alarms = []\<rparr>"
    by (simp add: metered_run)
  show ?thesis by (intro conjI) (fact a b c)+
qed

section \<open>Handles of overlapping calls\<close>

text \<open>
  The callbacks of the module are the three forms, and a scope stepped alone to its end
  is \<open>Promise.using\<close>.
\<close>

lemma module_callbacks:
  "callback D (Plain cName r) = plain_call D cName r"
  "callback D (Caught cName r name ctx) = caught_call D cName r name ctx"
  "Promise_using D (callback D (Element cName e)) = update_element D cName e"
  by (auto simp: fun_eq_iff update_element_def Promise_using_def split: sum.splits prod.splits option.splits)

lemma scope_alone:
  "run_actions D [Start j, Step 0, Step 0, Step 0] ([], w)
     = ([(j, Finished (fst (Promise_using D (callback D j) w)))],
        snd (Promise_using D (callback D j) w))"
proof (cases "dbConnection D w")
  case (Pair x w1)
  show ?thesis
  proof (cases x)
    case (Some e)
    with Pair show ?thesis by (simp add: Promise_using_def)
  next
    case None
    obtain r w2 where c: "callback D j w1 = (r, w2)" by (cases "callback D j w1")
    with Pair None show ?thesis by (cases r) (simp_all add: Promise_using_def)
  qed
qed

text \<open>
  However the steps of the scopes are interleaved, on a driver with counters the handles
  given out and not yet closed are those the scopes in progress hold; when every scope
  has finished, as many handles were closed as were given out.
\<close>

lemma callback_quiet:
  "acquired (db (snd (callback (metered D) j w))) = acquired (db w) \<and>
   released (db (snd (callback (metered D) j w))) = released (db w)"
proof (cases j)
  case (Plain c r)
  with plain_call_quiet [of D c r w] show ?thesis by simp
next
  case (Caught c r n ctx)
  with caught_call_quiet [of D c r n ctx w] show ?thesis by simp
next
  case (Element c e)
  with plain_call_quiet [of D c _ w] show ?thesis by (cases "get_id e") simp_all
qed

lemma scope_step_counts:
  "acquired (db (snd (scope_step (metered D) j p w))) + released (db w) + holds p
     = acquired (db w) + released (db (snd (scope_step (metered D) j p w)))
       + holds (fst (scope_step (metered D) j p w))"
proof (cases p)
  case Waiting
  then show ?thesis
    by (cases "connectAsync D (inner (db w))")
       (auto simp: dbConnection_def metered_def split: option.splits)
next
  case Holding
  with callback_quiet [of D j w] show ?thesis
    by (cases "callback (metered D) j w") simp
next
  case (Settling r)
  then show ?thesis by (cases r) (simp_all add: dispose_def metered_def)
next
  case (Finished out)
  then show ?thesis by simp
qed

lemma held_update:
  "i < length pool \<Longrightarrow>
   held (pool[i := (j, p)]) + holds (snd (pool ! i)) = held pool + holds p"
proof (induction pool arbitrary: i)
  case Nil
  then show ?case by simp
next
  case (Cons x xs)
  then show ?case by (cases i) (auto simp: held_def)
qed

lemma act_counts:
  "acquired (db (snd (perform (metered D) a (pool, w)))) + released (db w) + held pool
     = acquired (db w) + released (db (snd (perform (metered D) a (pool, w))))
       + held (fst (perform (metered D) a (pool, w)))"
proof (cases a)
  case (Start j)
  then show ?thesis by (simp add: held_def)
next
  case (Step i)
  show ?thesis
  proof (cases "i < length pool")
    case False
    with Step show ?thesis by simp
  next
    case True
    obtain p w' where s: "scope_step (metered D) (fst (pool ! i)) (snd (pool ! i)) w = (p, w')"
      by (cases "scope_step (metered D) (fst (pool ! i)) (snd (pool ! i)) w")
    from scope_step_counts [of D "fst (pool ! i)" "snd (pool ! i)" w] s
    have "acquired (db w') + released (db w) + holds (snd (pool ! i))
            = acquired (db w) + released (db w') + holds p" by simp
    moreover from held_update [OF True, of "fst (pool ! i)" p]
    have "held (pool[i := (fst (pool ! i), p)]) + holds (snd (pool ! i)) = held pool + holds p" .
    ultimately show ?thesis using Step True s by simp
  qed
qed

lemma run_counts:
  "acquired (db (snd (run_actions (metered D) as (pool, w)))) + released (db w) + held pool
     = acquired (db w) + released (db (snd (run_actions (metered D) as (pool, w))))
       + held (fst (run_actions (metered D) as (pool, w)))"
proof (induction as arbitrary: pool w)
  case Nil
  show ?case by simp
next
  case (Cons a as)
  obtain pool1 w1 where s: "perform (metered D) a (pool, w) = (pool1, w1)"
    by (cases "perform (metered D) a (pool, w)")
  from act_counts [of D a pool w] s
  have "acquired (db w1) + released (db w) + held pool
          = acquired (db w) + released (db w1) + held pool1" by simp
  with Cons.IH [of pool1 w1] s show ?case by simp
qed

lemma finished_held: "list_all (\<lambda>jp. finished (snd jp)) pool \<Longrightarrow> held pool = 0"
proof (induction pool)
  case Nil
  show ?case by (simp add: held_def)
next
  case (Cons x xs)
  then show ?case by (cases "snd x") (auto simp: held_def)
qed

lemma overlapping_calls_balanced:
  assumes "list_all (\<lambda>jp. finished (snd jp)) (fst (run_actions (metered D) as ([], w)))"
  shows "acquired (db (snd (run_actions (metered D) as ([], w)))) + released (db w)
           = acquired (db w) + released (db (snd (run_actions (metered D) as ([], w))))"
  using run_counts [of D as "[]" w] finished_held [OF assms] by (simp add: held_def)

text \<open>
  Two calls that overlap, the second rejected by the store and contained: both handles
  are closed, each after the other call has connected.
\<close>

lemma overlapping_calls_example:
  "run_actions (metered sim_store)
     [Start (Plain ''videos'' (Count (JObj []))), Step 0,
      Start (Caught ''videos'' (Aggregate []) ''lookup'' JNull), Step 1,
      Step 0, Step 1, Step 1, Step 0]
     ([], fresh \<lparr>inner = sim_fuse 1, acquired = 0, released = 0\<rparr>)
   = ([(Plain ''videos'' (Count (JObj [])), Finished (Resolved (JArr []))),
       (Caught ''videos'' (Aggregate []) ''lookup'' JNull, Finished (Resolved (JArr [])))],
      \<lparr>db = \<lparr>inner = sim_fuse 0, acquired = 2, released = 2\<rparr>,
        trace = [Connected, Connected, Call ''videos'' (Count (JObj [])),
                 Call ''videos'' (Aggregate []), Closed, Closed],
        alarms = [\<lparr>caller = ''lookup'', what = Error ''simulated failure'', info = JNull\<rparr>]\<rparr>)"
  by (simp add: dbConnection_def plain_call_def caught_call_def driver_call_def dispose_def
        reportAlarm_def metered_def sim_store_def sim_exec_def fresh_def sim_fuse_def)

end
